theory Spec2Isabelle
  imports Main
begin

section \<open>The data of \<open>bot.ts\<close>\<close>

text \<open>
  JavaScript numbers that the bot handles (story ids, millisecond time stamps, the
  configured hours) are integral and are modelled by \<open>int\<close>; a \<open>Date\<close> is modelled by
  its time value in milliseconds (\<open>getTime()\<close>); a \<open>Date\<close> that is invalid (its time
  value is \<open>NaN\<close>) is not modelled. The field \<open>id\<close> of a story is called
  \<open>story_id\<close>, since \<open>id\<close> is the identity function of HOL.
\<close>

record Story =
  story_id :: int
  title :: string
  url :: string
  hnUrl :: string
  publishedAt :: int

record BotState =
  lastStoryId :: int

record Config =
  minScore :: int
  maxStoryAgeHours :: int
  dryRun :: bool
  blueskyUsername :: "string option"
  blueskyPassword :: "string option"

datatype error =
    ReadError
  | SyntaxError
  | NetworkError
  | HttpError nat
  | UrlError
  | CredentialsNotConfigured
  | BlueskyError
  | UndefinedError
  | TypeError

section \<open>The world outside the process\<close>

text \<open>
  The text of a file is either the JSON text of a \<open>BotState\<close> (what
  \<open>JSON.stringify(state, null, 2)\<close> writes and \<open>JSON.parse\<close> reads back), or text that
  \<open>JSON.parse\<close> rejects. \<open>loadState\<close> is declared to return a \<open>BotState\<close>, and the
  functions of this section and the next take the state at that type. A state file
  that holds valid JSON of another shape (\<open>null\<close>, \<open>{}\<close>, \<open>[]\<close>, \<open>5\<close>) is the subject
  of the section on state files of any JSON shape.
\<close>

datatype content = StateJson BotState | Garbage string

text \<open>One entry of \<open>jsonData.items\<close>, with the fields that \<open>fetchRSSFeed\<close> reads; a field
  that is absent is \<open>None\<close>, and the two dates are given by their time values.\<close>

record item =
  item_id :: "string option"
  item_title :: "string option"
  item_url :: "string option"
  date_published :: "int option"
  date_modified :: "int option"

text \<open>The answer of the feed server: \<open>response.ok\<close>, \<open>response.status\<close>, and what
  \<open>response.json()\<close> gives: an error when the body is not JSON, else \<open>jsonData.items\<close>
  (\<open>None\<close> when the member is missing).\<close>

record response =
  ok :: bool
  status :: nat
  body :: "error + item list option"

datatype event =
    FetchCall
  | Sleep int
  | Posted Story
  | PostFailed Story error
  | Write string content

text \<open>
  The state that a run reads and changes. \<open>files\<close> is the file system (\<open>None\<close>: reading
  the path fails). \<open>clock\<close> is the current time in milliseconds. \<open>feed k p\<close> is the
  outcome of the \<open>k\<close>-th request to the feed server with \<open>points=p\<close>, and \<open>bluesky k\<close>
  the outcome of the \<open>k\<close>-th login-and-post (\<open>None\<close>: it went through). \<open>searchId\<close> and
  \<open>parseInt\<close> are the library calls of \<open>extractStoryId\<close>: \<open>new URL(s).searchParams.get('id')\<close>
  (an error when the constructor throws) and \<open>parseInt\<close> (\<open>None\<close> for \<open>NaN\<close>).
  \<open>posted\<close> collects what reached Bluesky, \<open>events\<close> the effects in the order they
  happened. The clock moves only while the process sleeps, and a write to a file
  succeeds. Output on the console is not modelled.
\<close>

record World =
  files :: "string \<Rightarrow> content option"
  clock :: int
  feed :: "nat \<Rightarrow> int \<Rightarrow> error + response"
  fetches :: nat
  bluesky :: "nat \<Rightarrow> error option"
  logins :: nat
  searchId :: "string \<Rightarrow> error + string option"
  parseInt :: "string \<Rightarrow> int option"
  posted :: "Story list"
  events :: "event list"

section \<open>The functions of \<open>bot.ts\<close>\<close>

definition extractStoryId :: "World \<Rightarrow> string option \<Rightarrow> int option" where
  "extractStoryId w itemId =
     (case itemId of
        None \<Rightarrow> None
      | Some s \<Rightarrow>
          if s = [] then None
          else (case searchId w s of
                  Inl e \<Rightarrow> None
                | Inr None \<Rightarrow> None
                | Inr (Some storyIdParam) \<Rightarrow>
                    if storyIdParam = [] then None
                    else (case parseInt w storyIdParam of
                            None \<Rightarrow> None
                          | Some storyId \<Rightarrow> Some storyId)))"

definition sleep :: "int \<Rightarrow> World \<Rightarrow> World" where
  "sleep ms w = w\<lparr>clock := clock w + ms, events := events w @ [Sleep ms]\<rparr>"

text \<open>The \<open>for\<close> loop of \<open>retryWithBackoff\<close> from \<open>attempt\<close> on; \<open>lastError\<close> is the
  error of the attempt before, and \<open>UndefinedError\<close> stands for the variable before
  its first assignment.\<close>

function retry_loop ::
  "(World \<Rightarrow> (error + 'a) \<times> World) \<Rightarrow> nat \<Rightarrow> int \<Rightarrow> nat \<Rightarrow> error \<Rightarrow> World
     \<Rightarrow> (error + 'a) \<times> World" where
  "retry_loop operation maxAttempts baseDelayMs attempt lastError w =
     (if attempt \<le> maxAttempts then
        (case operation w of
           (Inr v, w1) \<Rightarrow> (Inr v, w1)
         | (Inl e, w1) \<Rightarrow>
             retry_loop operation maxAttempts baseDelayMs (attempt + 1) e
               (if attempt < maxAttempts
                then sleep (baseDelayMs * 2 ^ (attempt - 1)) w1
                else w1))
      else (Inl lastError, w))"
  by pat_completeness auto
termination
  by (relation "measure (\<lambda>(operation, maxAttempts, baseDelayMs, attempt, lastError, w).
        Suc maxAttempts - attempt)") auto

declare retry_loop.simps [simp del]

definition retryWithBackoff ::
  "(World \<Rightarrow> (error + 'a) \<times> World) \<Rightarrow> nat \<Rightarrow> int \<Rightarrow> World \<Rightarrow> (error + 'a) \<times> World" where
  "retryWithBackoff operation maxAttempts baseDelayMs w =
     retry_loop operation maxAttempts baseDelayMs 1 UndefinedError w"

definition readFileSync :: "(string \<Rightarrow> content option) \<Rightarrow> string \<Rightarrow> error + content" where
  "readFileSync fs filepath =
     (case fs filepath of None \<Rightarrow> Inl ReadError | Some c \<Rightarrow> Inr c)"

definition JSON_parse :: "content \<Rightarrow> error + BotState" where
  "JSON_parse c = (case c of StateJson st \<Rightarrow> Inr st | Garbage t \<Rightarrow> Inl SyntaxError)"

definition JSON_stringify :: "BotState \<Rightarrow> content" where
  "JSON_stringify st = StateJson st"

definition loadState :: "(string \<Rightarrow> content option) \<Rightarrow> string \<Rightarrow> BotState" where
  "loadState fs filepath =
     (case readFileSync fs filepath of
        Inl e \<Rightarrow> \<lparr>lastStoryId = 0\<rparr>
      | Inr content \<Rightarrow>
          (case JSON_parse content of
             Inl e \<Rightarrow> \<lparr>lastStoryId = 0\<rparr>
           | Inr st \<Rightarrow> st))"

definition writeFileSync :: "string \<Rightarrow> content \<Rightarrow> World \<Rightarrow> World" where
  "writeFileSync filepath c w =
     w\<lparr>files := (files w)(filepath \<mapsto> c), events := events w @ [Write filepath c]\<rparr>"

definition saveState :: "string \<Rightarrow> BotState \<Rightarrow> World \<Rightarrow> World" where
  "saveState filepath st w = writeFileSync filepath (JSON_stringify st) w"

text \<open>The loop of \<open>fetchRSSFeed\<close> over the items; \<open>clock w\<close> is \<open>Date.now()\<close>.\<close>

fun collect :: "World \<Rightarrow> item list \<Rightarrow> Story list" where
  "collect w [] = []"
| "collect w (it # its) =
     (case extractStoryId w (item_id it) of
        None \<Rightarrow> collect w its
      | Some n \<Rightarrow>
          \<lparr>story_id = n,
           title = (case item_title it of None \<Rightarrow> [] | Some t \<Rightarrow> t),
           url = (case item_url it of None \<Rightarrow> [] | Some u \<Rightarrow> u),
           hnUrl = (case item_id it of None \<Rightarrow> [] | Some s \<Rightarrow> s),
           publishedAt =
             (case date_published it of
                Some d \<Rightarrow> d
              | None \<Rightarrow> (case date_modified it of Some d \<Rightarrow> d | None \<Rightarrow> clock w))\<rparr>
          # collect w its)"

definition fetchRSSFeed :: "Config \<Rightarrow> World \<Rightarrow> (error + Story list) \<times> World" where
  "fetchRSSFeed cfg w =
     (let w1 = w\<lparr>fetches := fetches w + 1, events := events w @ [FetchCall]\<rparr> in
      case feed w (fetches w) (minScore cfg) of
        Inl e \<Rightarrow> (Inl e, w1)
      | Inr resp \<Rightarrow>
          if \<not> ok resp then (Inl (HttpError (status resp)), w1)
          else (case body resp of
                  Inl e \<Rightarrow> (Inl e, w1)
                | Inr items \<Rightarrow>
                    (Inr (sort_key story_id
                            (collect w1 (case items of None \<Rightarrow> [] | Some its \<Rightarrow> its))),
                     w1)))"

definition falsy :: "string option \<Rightarrow> bool" where
  "falsy s = (case s of None \<Rightarrow> True | Some t \<Rightarrow> t = [])"

text \<open>\<open>postToBluesky\<close>: the check of the credentials, then login, facets and post as one
  call of the service. The text and the facets of the post are not modelled.\<close>

definition postToBluesky :: "Config \<Rightarrow> Story \<Rightarrow> World \<Rightarrow> (error + unit) \<times> World" where
  "postToBluesky cfg story w =
     (if falsy (blueskyUsername cfg) \<or> falsy (blueskyPassword cfg)
      then (Inl CredentialsNotConfigured, w)
      else (case bluesky w (logins w) of
              Some e \<Rightarrow>
                (Inl e, w\<lparr>logins := logins w + 1,
                           events := events w @ [PostFailed story e]\<rparr>)
            | None \<Rightarrow>
                (Inr (), w\<lparr>logins := logins w + 1,
                            posted := posted w @ [story],
                            events := events w @ [Posted story]\<rparr>)))"

text \<open>The local values of \<open>main\<close>, under their names.\<close>

definition stateFile :: "string option \<Rightarrow> string" where
  "stateFile argv2 =
     (case argv2 of
        None \<Rightarrow> ''last-processed.json''
      | Some p \<Rightarrow> if p = [] then ''last-processed.json'' else p)"

definition newStories :: "BotState \<Rightarrow> Story list \<Rightarrow> Story list" where
  "newStories state stories = filter (\<lambda>story. story_id story > lastStoryId state) stories"

definition maxAgeMs :: "Config \<Rightarrow> int" where
  "maxAgeMs cfg = maxStoryAgeHours cfg * 60 * 60 * 1000"

definition freshStories :: "Config \<Rightarrow> int \<Rightarrow> Story list \<Rightarrow> Story list" where
  "freshStories cfg now new =
     filter (\<lambda>story. let ageMs = now - publishedAt story
                     in if ageMs > maxAgeMs cfg then False else True) new"

text \<open>
  \<open>main\<close>: the result is the exit code of the process (\<open>1\<close> from \<open>process.exit(1)\<close> in
  the \<open>catch\<close>, \<open>0\<close> when \<open>main\<close> returns) and the world it leaves. \<open>Math.max\<close> is
  applied to the ids of a list that is not empty at that point.
\<close>

definition main :: "Config \<Rightarrow> string option \<Rightarrow> World \<Rightarrow> nat \<times> World" where
  "main cfg argv2 w =
     (let state = loadState (files w) (stateFile argv2) in
      case retryWithBackoff (fetchRSSFeed cfg) 3 1000 w of
        (Inl e, w1) \<Rightarrow> (1, w1)
      | (Inr stories, w1) \<Rightarrow>
          let new = newStories state stories in
          if length new = 0 then (0, w1)
          else
            let now = clock w1;
                fresh = freshStories cfg now new in
            if length fresh = 0 then
              let latestId = Max (set (map story_id new)) in
              (0, saveState (stateFile argv2) (state\<lparr>lastStoryId := latestId\<rparr>) w1)
            else
              let storyToPost = fresh ! 0 in
              if dryRun cfg then (0, w1)
              else
                (case retryWithBackoff (postToBluesky cfg storyToPost) 3 2000 w1 of
                   (Inl e, w2) \<Rightarrow> (1, w2)
                 | (Inr u, w2) \<Rightarrow>
                     (0, saveState (stateFile argv2)
                           (state\<lparr>lastStoryId := story_id storyToPost\<rparr>) w2)))"

section \<open>The second script\<close>

text \<open>
  The source holds a second script (it follows the README), an earlier variant of the
  bot that reads the RSS feed with regular expressions and posts over plain HTTP.
  Its \<open>loadState\<close>, \<open>saveState\<close> and \<open>retryWithBackoff\<close> are those of \<open>bot.ts\<close>, and
  its \<open>main\<close> is the one below: it differs from \<open>main\<close> of \<open>bot.ts\<close> in that the state
  is saved after the \<open>if (config.dryRun)\<close> statement, not inside its \<open>else\<close> branch. Its
  own \<open>fetchRSSFeed\<close> and \<open>postToBluesky\<close> are taken as parameters, and the score that
  its stories carry, which its \<open>main\<close> only logs, is left out. The workflow of the
  repository runs \<open>bot.ts\<close>.
\<close>

definition main_rss ::
  "(World \<Rightarrow> (error + Story list) \<times> World) \<Rightarrow> (Story \<Rightarrow> World \<Rightarrow> (error + unit) \<times> World)
     \<Rightarrow> Config \<Rightarrow> string option \<Rightarrow> World \<Rightarrow> nat \<times> World" where
  "main_rss fetchRSSFeed2 postToBluesky2 cfg argv2 w =
     (let state = loadState (files w) (stateFile argv2) in
      case retryWithBackoff fetchRSSFeed2 3 1000 w of
        (Inl e, w1) \<Rightarrow> (1, w1)
      | (Inr stories, w1) \<Rightarrow>
          let new = newStories state stories in
          if length new = 0 then (0, w1)
          else
            let now = clock w1;
                fresh = freshStories cfg now new in
            if length fresh = 0 then
              let latestId = Max (set (map story_id new)) in
              (0, saveState (stateFile argv2) (state\<lparr>lastStoryId := latestId\<rparr>) w1)
            else
              let storyToPost = fresh ! 0 in
              (case (if dryRun cfg then (Inr (), w1)
                     else retryWithBackoff (postToBluesky2 storyToPost) 3 2000 w1) of
                 (Inl e, w2) \<Rightarrow> (1, w2)
               | (Inr u, w2) \<Rightarrow>
                   (0, saveState (stateFile argv2)
                         (state\<lparr>lastStoryId := story_id storyToPost\<rparr>) w2)))"

section \<open>Observations and the decision of a run\<close>

text \<open>The writes among the effects of a run, in order: the path and the text written.\<close>

fun writes :: "event list \<Rightarrow> (string \<times> content) list" where
  "writes [] = []"
| "writes (Write p c # es) = (p, c) # writes es"
| "writes (e # es) = writes es"

text \<open>Two worlds between which nothing was written and nothing was posted.\<close>

definition quiet :: "World \<Rightarrow> World \<Rightarrow> bool" where
  "quiet w w' \<longleftrightarrow>
     files w' = files w \<and> posted w' = posted w \<and> writes (events w') = writes (events w)"

text \<open>
  The three ways in which \<open>main\<close> goes on after the feed has been fetched, as a value:
  the early return of line 205, the branch of lines 226 to 233 with \<open>latestId\<close>, and
  the story of line 236 with its id. \<open>selection\<close> repeats the tests of \<open>main\<close>;
  lemma \<open>main_selection\<close> below shows that \<open>main\<close> acts on this value.
\<close>

datatype SelectionResult = NoOp | AdvanceOnly int | PostAndAdvance Story int

definition selection :: "Config \<Rightarrow> BotState \<Rightarrow> int \<Rightarrow> Story list \<Rightarrow> SelectionResult" where
  "selection cfg state now stories =
     (let new = newStories state stories in
      if length new = 0 then NoOp
      else
        let fresh = freshStories cfg now new in
        if length fresh = 0 then AdvanceOnly (Max (set (map story_id new)))
        else PostAndAdvance (fresh ! 0) (story_id (fresh ! 0)))"

text \<open>
  The candidate list with one entry left for each id. The specification lets any copy
  stand for the item; here, of the entries that share an id, the first one within the
  age limit stays, or the first one when none is within the limit, and the entries
  that stay keep their order. \<open>bot.ts\<close> has no such step.
\<close>

definition withinAge :: "Config \<Rightarrow> int \<Rightarrow> Story \<Rightarrow> bool" where
  "withinAge cfg now s \<longleftrightarrow> now - publishedAt s \<le> maxStoryAgeHours cfg * 60 * 60 * 1000"

fun dedupe :: "Config \<Rightarrow> int \<Rightarrow> Story list \<Rightarrow> Story list" where
  "dedupe cfg now [] = []"
| "dedupe cfg now (s # ss) =
     (if withinAge cfg now s \<or>
         filter (\<lambda>t. story_id t = story_id s \<and> withinAge cfg now t) ss = []
      then s # dedupe cfg now (filter (\<lambda>t. story_id t \<noteq> story_id s) ss)
      else dedupe cfg now ss)"

text \<open>
  A sequence of runs on one state file: every run is a process of its own, with its own
  configuration, clock and network, and finds the files that the run before it left.
  The result lists the file system before the first run and after each run.
\<close>

fun run_all ::
  "string option \<Rightarrow> (Config \<times> World) list \<Rightarrow> (string \<Rightarrow> content option)
     \<Rightarrow> (string \<Rightarrow> content option) list" where
  "run_all argv2 [] fs = [fs]"
| "run_all argv2 ((cfg, env) # rest) fs =
     fs # run_all argv2 rest (files (snd (main cfg argv2 (env\<lparr>files := fs\<rparr>))))"

section \<open>State files of any JSON shape\<close>

text \<open>
  \<open>JSON.parse\<close> returns the value that the text denotes and \<open>loadState\<close> passes it on
  without a check, whatever its shape. This section follows \<open>loadState\<close> and \<open>main\<close> on
  such files. The text of a file is then: one of the texts above; the text \<open>null\<close>; or
  valid JSON that is neither \<open>null\<close> nor a value whose \<open>lastStoryId\<close> is or converts to a
  number (\<open>{}\<close>, \<open>[]\<close>, \<open>5\<close>, a string, an object whose \<open>lastStoryId\<close> is \<open>"abc"\<close>). An
  object whose \<open>lastStoryId\<close> converts to the number \<open>n\<close> counts as the state with cursor
  \<open>n\<close>, since \<open>main\<close> only compares it and overwrites it. The file system with these
  texts is kept beside the world, whose field \<open>files\<close> the functions of this section do
  not use.
\<close>

datatype json_text = Typed content | NullText | OtherText

datatype js_value = JsNull | JsState BotState | JsOther

definition readFileSync_js :: "(string \<Rightarrow> json_text option) \<Rightarrow> string \<Rightarrow> error + json_text" where
  "readFileSync_js disk filepath =
     (case disk filepath of None \<Rightarrow> Inl ReadError | Some t \<Rightarrow> Inr t)"

definition JSON_parse_js :: "json_text \<Rightarrow> error + js_value" where
  "JSON_parse_js t =
     (case t of
        Typed c \<Rightarrow> (case JSON_parse c of Inl e \<Rightarrow> Inl e | Inr st \<Rightarrow> Inr (JsState st))
      | NullText \<Rightarrow> Inr JsNull
      | OtherText \<Rightarrow> Inr JsOther)"

definition loadState_js :: "(string \<Rightarrow> json_text option) \<Rightarrow> string \<Rightarrow> js_value" where
  "loadState_js disk filepath =
     (case readFileSync_js disk filepath of
        Inl e \<Rightarrow> JsState \<lparr>lastStoryId = 0\<rparr>
      | Inr content \<Rightarrow>
          (case JSON_parse_js content of
             Inl e \<Rightarrow> JsState \<lparr>lastStoryId = 0\<rparr>
           | Inr v \<Rightarrow> v))"

text \<open>Reading \<open>state.lastStoryId\<close>: a \<open>TypeError\<close> on \<open>null\<close>, \<open>undefined\<close> (\<open>None\<close>)
  on a value without a cursor. \<open>story.id > state.lastStoryId\<close> is false when the right
  side is \<open>undefined\<close>.\<close>

definition lastStoryId_js :: "js_value \<Rightarrow> error + int option" where
  "lastStoryId_js v =
     (case v of
        JsNull \<Rightarrow> Inl TypeError
      | JsState st \<Rightarrow> Inr (Some (lastStoryId st))
      | JsOther \<Rightarrow> Inr None)"

definition greater_js :: "int \<Rightarrow> int option \<Rightarrow> bool" where
  "greater_js i c = (case c of None \<Rightarrow> False | Some n \<Rightarrow> i > n)"

definition saveState_js ::
  "string \<Rightarrow> BotState \<Rightarrow> (string \<Rightarrow> json_text option) \<times> World
     \<Rightarrow> (string \<Rightarrow> json_text option) \<times> World" where
  "saveState_js filepath st dw =
     ((fst dw)(filepath \<mapsto> Typed (JSON_stringify st)),
      (snd dw)\<lparr>events := events (snd dw) @ [Write filepath (JSON_stringify st)]\<rparr>)"

text \<open>
  \<open>main\<close> on such a file system. The first read of \<open>state.lastStoryId\<close> is in the log
  call of line 189, inside the \<open>try\<close>, before the feed is fetched. The state that is
  saved is the one after the assignment to \<open>state.lastStoryId\<close>, at the type \<open>BotState\<close>.
\<close>

definition main_js ::
  "Config \<Rightarrow> string option \<Rightarrow> (string \<Rightarrow> json_text option) \<times> World
     \<Rightarrow> nat \<times> (string \<Rightarrow> json_text option) \<times> World" where
  "main_js cfg argv2 dw =
     (let disk = fst dw; w = snd dw;
          state = loadState_js disk (stateFile argv2) in
      case lastStoryId_js state of
        Inl e \<Rightarrow> (1, (disk, w))
      | Inr cursor \<Rightarrow>
          (case retryWithBackoff (fetchRSSFeed cfg) 3 1000 w of
             (Inl e, w1) \<Rightarrow> (1, (disk, w1))
           | (Inr stories, w1) \<Rightarrow>
               let new = filter (\<lambda>story. greater_js (story_id story) cursor) stories in
               if length new = 0 then (0, (disk, w1))
               else
                 let now = clock w1;
                     fresh = freshStories cfg now new in
                 if length fresh = 0 then
                   let latestId = Max (set (map story_id new)) in
                   (0, saveState_js (stateFile argv2) \<lparr>lastStoryId = latestId\<rparr> (disk, w1))
                 else
                   let storyToPost = fresh ! 0 in
                   if dryRun cfg then (0, (disk, w1))
                   else
                     (case retryWithBackoff (postToBluesky cfg storyToPost) 3 2000 w1 of
                        (Inl e, w2) \<Rightarrow> (1, (disk, w2))
                      | (Inr u, w2) \<Rightarrow>
                          (0, saveState_js (stateFile argv2)
                                \<lparr>lastStoryId = story_id storyToPost\<rparr> (disk, w2)))))"

section \<open>A concrete world for examples\<close>

text \<open>The decimal case of \<open>parseInt\<close>: the digits at the start of the string.\<close>

fun digits :: "int \<Rightarrow> string \<Rightarrow> int" where
  "digits acc [] = acc"
| "digits acc (c # cs) =
     (if c \<in> set ''0123456789'' then digits (10 * acc + (of_char c - 48)) cs else acc)"

definition parseInt10 :: "string \<Rightarrow> int option" where
  "parseInt10 s =
     (case s of
        [] \<Rightarrow> None
      | c # cs \<Rightarrow> if c \<in> set ''0123456789'' then Some (digits 0 s) else None)"

definition cfg0 :: Config where
  "cfg0 = \<lparr>minScore = 100, maxStoryAgeHours = 48, dryRun = False,
           blueskyUsername = Some ''bot.bsky.social'',
           blueskyPassword = Some ''app-password''\<rparr>"

definition hn_item :: "string \<Rightarrow> int \<Rightarrow> item" where
  "hn_item n t =
     \<lparr>item_id = Some (''https://news.ycombinator.com/item?id='' @ n),
      item_title = Some ''Story'',
      item_url = Some ''https://example.com/'',
      date_published = Some t,
      date_modified = None\<rparr>"

definition hn_story :: "string \<Rightarrow> int \<Rightarrow> int \<Rightarrow> Story" where
  "hn_story n i t =
     \<lparr>story_id = i, title = ''Story'', url = ''https://example.com/'',
      hnUrl = ''https://news.ycombinator.com/item?id='' @ n, publishedAt = t\<rparr>"

text \<open>
  A world at time \<open>1000000000\<close> ms whose state file holds \<open>cursor\<close>, whose feed
  answers every request with \<open>items\<close>, and whose Bluesky service answers the \<open>k\<close>-th
  call with \<open>bsky k\<close>. With 48 hours (\<open>172800000\<close> ms) as the limit, a story
  published at \<open>0\<close> is stale, one published at \<open>900000000\<close> is fresh, and one
  published at \<open>827200000\<close> is exactly at the limit.
\<close>

definition world0 :: "int \<Rightarrow> item list \<Rightarrow> (nat \<Rightarrow> error option) \<Rightarrow> World" where
  "world0 cursor items bsky =
     \<lparr>files = [''last-processed.json'' \<mapsto> StateJson \<lparr>lastStoryId = cursor\<rparr>],
      clock = 1000000000,
      feed = (\<lambda>k p. Inr \<lparr>ok = True, status = 200, body = Inr (Some items)\<rparr>),
      fetches = 0,
      bluesky = bsky,
      logins = 0,
      searchId = (\<lambda>s. Inr (Some (drop 37 s))),
      parseInt = parseInt10,
      posted = [],
      events = []\<rparr>"

section \<open>Retrying\<close>

lemma writes_append: "writes (xs @ ys) = writes xs @ writes ys"
  by (induction xs rule: writes.induct) auto

lemma quiet_refl: "quiet w w"
  by (simp add: quiet_def)

lemma quiet_trans: "quiet a b \<Longrightarrow> quiet b c \<Longrightarrow> quiet a c"
  by (simp add: quiet_def)

lemma quiet_sleep: "quiet w (sleep ms w)"
  by (simp add: quiet_def sleep_def writes_append)

lemma sleep_logins: "logins (sleep ms w) = logins w"
  by (simp add: sleep_def)

lemma retry_loop_cases:
  assumes refl: "\<And>w. R w w"
    and trans: "\<And>a b c. R a b \<Longrightarrow> R b c \<Longrightarrow> R a c"
    and slp: "\<And>ms w. R w (sleep ms w)"
    and fail: "\<And>w e w'. operation w = (Inl e, w') \<Longrightarrow> R w w'"
    and res: "retry_loop operation m b a e w = (r, w')"
  shows "case r of Inl e' \<Rightarrow> R w w' | Inr v \<Rightarrow> (\<exists>w0. R w w0 \<and> operation w0 = (Inr v, w'))"
  using fail res
proof (induction operation m b a e w rule: retry_loop.induct)
  case (1 operation m b a e w)
  note fail = "1.prems"(1) and res = "1.prems"(2)
  show ?case
  proof (cases "a \<le> m")
    case False
    then show ?thesis using res by (auto simp add: retry_loop.simps refl)
  next
    case True
    obtain r1 w1 where ow: "operation w = (r1, w1)" by (cases "operation w")
    show ?thesis
    proof (cases r1)
      case (Inr v)
      then have "r = Inr v" "w' = w1" using True ow res by (simp_all add: retry_loop.simps)
      then show ?thesis using ow Inr refl by auto
    next
      case (Inl e1)
      let ?w2 = "if a < m then sleep (b * 2 ^ (a - 1)) w1 else w1"
      have r1: "R w w1" using fail ow Inl by simp
      have r2: "R w1 ?w2" by (simp add: refl slp)
      have r12: "R w ?w2" using trans [OF r1 r2] .
      have res2: "retry_loop operation m b (a + 1) e1 ?w2 = (r, w')"
        using True ow Inl res by (simp add: retry_loop.simps [of operation m b a])
      have ih: "case r of Inl e' \<Rightarrow> R ?w2 w' | Inr v \<Rightarrow> (\<exists>w0. R ?w2 w0 \<and> operation w0 = (Inr v, w'))"
        using "1.IH" [OF True ow [symmetric] Inl fail res2] .
      show ?thesis
      proof (cases r)
        case (Inl e')
        then show ?thesis using ih trans [OF r12] by simp
      next
        case (Inr v)
        then obtain w0 where "R ?w2 w0" "operation w0 = (Inr v, w')" using ih by auto
        then show ?thesis using Inr trans [OF r12] by auto
      qed
    qed
  qed
qed

section \<open>Fetching\<close>

lemma fetchRSSFeed_quiet: "fetchRSSFeed cfg w = (r, w') \<Longrightarrow> quiet w w' \<and> logins w' = logins w"
  by (auto simp add: fetchRSSFeed_def quiet_def writes_append Let_def
        split: sum.splits if_splits)

lemma fetchRSSFeed_sorted:
  "fetchRSSFeed cfg w = (Inr stories, w') \<Longrightarrow> sorted (map story_id stories)"
  by (auto simp add: fetchRSSFeed_def Let_def split: sum.splits if_splits)

lemma fetch_retry:
  assumes "retryWithBackoff (fetchRSSFeed cfg) m b w = (r, w1)"
  shows "quiet w w1 \<and> logins w1 = logins w \<and>
         (\<forall>stories. r = Inr stories \<longrightarrow> sorted (map story_id stories))"
proof -
  let ?R = "\<lambda>a b. quiet a b \<and> logins b = logins a"
  have c: "case r of Inl e' \<Rightarrow> ?R w w1
           | Inr v \<Rightarrow> (\<exists>w0. ?R w w0 \<and> fetchRSSFeed cfg w0 = (Inr v, w1))"
  proof (rule retry_loop_cases [where R = ?R])
    show "retry_loop (fetchRSSFeed cfg) m b 1 UndefinedError w = (r, w1)"
      using assms by (simp add: retryWithBackoff_def)
  qed (auto simp add: quiet_refl quiet_sleep sleep_logins fetchRSSFeed_quiet intro: quiet_trans)
  show ?thesis
  proof (cases r)
    case (Inl e)
    then show ?thesis using c by simp
  next
    case (Inr v)
    then obtain w0 where "?R w w0" "fetchRSSFeed cfg w0 = (Inr v, w1)" using c by auto
    then show ?thesis
      using Inr fetchRSSFeed_quiet [of cfg w0 "Inr v" w1] fetchRSSFeed_sorted [of cfg w0 v w1]
      by (auto intro: quiet_trans)
  qed
qed

section \<open>Posting\<close>

lemma postToBluesky_fail: "postToBluesky cfg s w = (Inl e, w') \<Longrightarrow> quiet w w'"
  by (auto simp add: postToBluesky_def quiet_def writes_append split: if_splits option.splits)

lemma postToBluesky_ok:
  "postToBluesky cfg s w = (Inr u, w') \<Longrightarrow>
   w' = w\<lparr>logins := logins w + 1, posted := posted w @ [s], events := events w @ [Posted s]\<rparr>"
  by (auto simp add: postToBluesky_def split: if_splits option.splits)

lemma post_retry:
  assumes "retryWithBackoff (postToBluesky cfg s) m b w1 = (r, w2)"
  shows "case r of
           Inl e \<Rightarrow> quiet w1 w2
         | Inr u \<Rightarrow> (\<exists>w0. quiet w1 w0 \<and>
               w2 = w0\<lparr>logins := logins w0 + 1, posted := posted w0 @ [s],
                        events := events w0 @ [Posted s]\<rparr>)"
proof -
  have c: "case r of Inl e' \<Rightarrow> quiet w1 w2
           | Inr v \<Rightarrow> (\<exists>w0. quiet w1 w0 \<and> postToBluesky cfg s w0 = (Inr v, w2))"
  proof (rule retry_loop_cases [where R = quiet])
    show "retry_loop (postToBluesky cfg s) m b 1 UndefinedError w1 = (r, w2)"
      using assms by (simp add: retryWithBackoff_def)
  qed (auto simp add: quiet_refl quiet_sleep postToBluesky_fail intro: quiet_trans)
  show ?thesis
  proof (cases r)
    case (Inl e)
    then show ?thesis using c by simp
  next
    case (Inr v)
    then obtain w0 where "quiet w1 w0" "postToBluesky cfg s w0 = (Inr v, w2)" using c by auto
    then show ?thesis using Inr postToBluesky_ok [of cfg s w0 v w2] by auto
  qed
qed

section \<open>The run\<close>

lemma BotState_update: "state\<lparr>lastStoryId := n\<rparr> = \<lparr>lastStoryId = n\<rparr>"
  by (cases state) simp

lemma main_selection:
  assumes "retryWithBackoff (fetchRSSFeed cfg) 3 1000 w = (Inr stories, w1)"
  shows "main cfg argv2 w =
     (case selection cfg (loadState (files w) (stateFile argv2)) (clock w1) stories of
        NoOp \<Rightarrow> (0, w1)
      | AdvanceOnly n \<Rightarrow> (0, saveState (stateFile argv2) \<lparr>lastStoryId = n\<rparr> w1)
      | PostAndAdvance s n \<Rightarrow>
          if dryRun cfg then (0, w1)
          else (case retryWithBackoff (postToBluesky cfg s) 3 2000 w1 of
                  (Inl e, w2) \<Rightarrow> (1, w2)
                | (Inr u, w2) \<Rightarrow> (0, saveState (stateFile argv2) \<lparr>lastStoryId = n\<rparr> w2)))"
  using assms
  by (simp add: main_def selection_def Let_def BotState_update split: prod.splits sum.splits)

lemma main_fetch_failed:
  assumes "retryWithBackoff (fetchRSSFeed cfg) 3 1000 w = (Inl e, w1)"
  shows "main cfg argv2 w = (1, w1)"
  using assms by (simp add: main_def)


lemmas world_defs =
  world0_def hn_item_def hn_story_def cfg0_def parseInt10_def

lemmas run_defs =
  main_def retryWithBackoff_def retry_loop.simps fetchRSSFeed_def postToBluesky_def
  extractStoryId_def falsy_def sleep_def newStories_def freshStories_def maxAgeMs_def
  loadState_def readFileSync_def JSON_parse_def JSON_stringify_def stateFile_def
  saveState_def writeFileSync_def selection_def Let_def

section \<open>Novelty\<close>

text \<open>
  C7. A story is novel exactly when its id is strictly greater than the stored
  \<open>lastStoryId\<close>; a story whose id equals it is dropped. When the fetched list has no
  novel story, the run ends with exit code 0 in the world that fetching left: nothing
  is written, nothing is posted and Bluesky is not called.
\<close>

theorem novelty_strict:
  "(s \<in> set (newStories state stories) \<longleftrightarrow>
      s \<in> set stories \<and> lastStoryId state < story_id s) \<and>
   (story_id s = lastStoryId state \<longrightarrow> s \<notin> set (newStories state stories)) \<and>
   (retryWithBackoff (fetchRSSFeed cfg) 3 1000 w = (Inr stories, w1) \<and>
    newStories (loadState (files w) (stateFile argv2)) stories = [] \<longrightarrow>
      main cfg argv2 w = (0, w1) \<and> files w1 = files w \<and> posted w1 = posted w \<and>
      logins w1 = logins w \<and> writes (events w1) = writes (events w))"
proof -
  have a: "s \<in> set (newStories state stories) \<longleftrightarrow>
      s \<in> set stories \<and> lastStoryId state < story_id s"
    by (simp add: newStories_def)
  have b: "story_id s = lastStoryId state \<longrightarrow> s \<notin> set (newStories state stories)"
    by (simp add: newStories_def)
  have c: "main cfg argv2 w = (0, w1) \<and> files w1 = files w \<and> posted w1 = posted w \<and>
      logins w1 = logins w \<and> writes (events w1) = writes (events w)"
    if f: "retryWithBackoff (fetchRSSFeed cfg) 3 1000 w = (Inr stories, w1)"
      and n: "newStories (loadState (files w) (stateFile argv2)) stories = []"
  proof -
    have "main cfg argv2 w = (0, w1)"
      using n by (simp add: main_selection [OF f] selection_def)
    then show ?thesis using fetch_retry [OF f] by (simp add: quiet_def)
  qed
  show ?thesis using a b c by blast
qed

theorem novelty_strict_witness:
  "story_id (hn_story ''100'' 100 900000000) = lastStoryId \<lparr>lastStoryId = 100\<rparr> \<and>
   hn_story ''100'' 100 900000000 \<notin>
     set (newStories \<lparr>lastStoryId = 100\<rparr>
            [hn_story ''99'' 99 900000000, hn_story ''100'' 100 900000000]) \<and>
   retryWithBackoff (fetchRSSFeed cfg0) 3 1000
       (world0 100 [hn_item ''100'' 900000000, hn_item ''99'' 900000000] (\<lambda>k. None))
     = (Inr [hn_story ''99'' 99 900000000, hn_story ''100'' 100 900000000],
        (world0 100 [hn_item ''100'' 900000000, hn_item ''99'' 900000000] (\<lambda>k. None))
          \<lparr>fetches := 1, events := [FetchCall]\<rparr>) \<and>
   newStories
       (loadState
          (files (world0 100 [hn_item ''100'' 900000000, hn_item ''99'' 900000000] (\<lambda>k. None)))
          (stateFile None))
       [hn_story ''99'' 99 900000000, hn_story ''100'' 100 900000000] = [] \<and>
   main cfg0 None (world0 100 [hn_item ''100'' 900000000, hn_item ''99'' 900000000] (\<lambda>k. None))
     = (0, (world0 100 [hn_item ''100'' 900000000, hn_item ''99'' 900000000] (\<lambda>k. None))
          \<lparr>fetches := 1, events := [FetchCall]\<rparr>)"
  using novelty_strict [of "hn_story ''100'' 100 900000000" "\<lparr>lastStoryId = 100\<rparr>"
      "[hn_story ''99'' 99 900000000, hn_story ''100'' 100 900000000]" cfg0
      "world0 100 [hn_item ''100'' 900000000, hn_item ''99'' 900000000] (\<lambda>k. None)"
      "(world0 100 [hn_item ''100'' 900000000, hn_item ''99'' 900000000] (\<lambda>k. None))
          \<lparr>fetches := 1, events := [FetchCall]\<rparr>" None]
  by (simp add: world_defs run_defs)

section \<open>The stale backlog\<close>

lemma Max_novel:
  assumes "newStories state stories \<noteq> []"
  shows "lastStoryId state < Max (set (map story_id (newStories state stories)))"
proof -
  have "Max (set (map story_id (newStories state stories)))
          \<in> set (map story_id (newStories state stories))"
    using assms by (intro Max_in) auto
  then show ?thesis by (auto simp add: newStories_def)
qed

lemma main_advance:
  assumes f: "retryWithBackoff (fetchRSSFeed cfg) 3 1000 w = (Inr stories, w1)"
    and n: "newStories (loadState (files w) (stateFile argv2)) stories \<noteq> []"
    and s: "freshStories cfg (clock w1)
              (newStories (loadState (files w) (stateFile argv2)) stories) = []"
  shows "main cfg argv2 w =
           (0, saveState (stateFile argv2)
                 \<lparr>lastStoryId =
                    Max (set (map story_id
                      (newStories (loadState (files w) (stateFile argv2)) stories)))\<rparr> w1)"
  using n s by (simp add: main_selection [OF f] selection_def)

lemma saveState_effect:
  "files (saveState p st w) = (files w)(p \<mapsto> StateJson st) \<and>
   posted (saveState p st w) = posted w \<and> logins (saveState p st w) = logins w \<and>
   events (saveState p st w) = events w @ [Write p (StateJson st)] \<and>
   writes (events (saveState p st w)) = writes (events w) @ [(p, StateJson st)] \<and>
   loadState (files (saveState p st w)) p = st"
  by (simp add: saveState_def writeFileSync_def JSON_stringify_def writes_append
        loadState_def readFileSync_def JSON_parse_def)

text \<open>
  C2. When the fetched list has stories with an id above the stored cursor and every
  one of them is older than the limit, the run posts nothing and does not call
  Bluesky; it writes the greatest id among the stories above the cursor to the state
  file, which is then the stored cursor, and ends with exit code 0.
\<close>

theorem backlog_skip:
  assumes "retryWithBackoff (fetchRSSFeed cfg) 3 1000 w = (Inr stories, w1)"
    and "cursor = lastStoryId (loadState (files w) (stateFile argv2))"
    and "\<exists>s \<in> set stories. cursor < story_id s"
    and "\<forall>s \<in> set stories. cursor < story_id s \<longrightarrow>
           clock w1 - publishedAt s > maxStoryAgeHours cfg * 60 * 60 * 1000"
    and "latestId = Max (story_id ` {s \<in> set stories. cursor < story_id s})"
  shows "main cfg argv2 w =
           (0, saveState (stateFile argv2) \<lparr>lastStoryId = latestId\<rparr> w1) \<and>
         posted (snd (main cfg argv2 w)) = posted w \<and>
         logins (snd (main cfg argv2 w)) = logins w \<and>
         writes (events (snd (main cfg argv2 w))) =
           writes (events w) @ [(stateFile argv2, StateJson \<lparr>lastStoryId = latestId\<rparr>)] \<and>
         loadState (files (snd (main cfg argv2 w))) (stateFile argv2) =
           \<lparr>lastStoryId = latestId\<rparr>"
proof -
  let ?new = "newStories (loadState (files w) (stateFile argv2)) stories"
  have sn: "set ?new = {s \<in> set stories. cursor < story_id s}"
    unfolding assms(2) by (auto simp add: newStories_def)
  have ne: "?new \<noteq> []"
    using assms(3) sn by auto
  have "\<forall>s \<in> set ?new. clock w1 - publishedAt s > maxAgeMs cfg"
    using assms(4) sn by (simp add: maxAgeMs_def)
  then have stale: "freshStories cfg (clock w1) ?new = []"
    by (simp add: freshStories_def filter_empty_conv)
  have m: "main cfg argv2 w =
      (0, saveState (stateFile argv2) \<lparr>lastStoryId = latestId\<rparr> w1)"
    using main_advance [OF assms(1) ne stale] sn assms(5) by simp
  have q: "quiet w w1" "logins w1 = logins w"
    using fetch_retry [OF assms(1)] by simp_all
  show ?thesis
    using q by (simp add: m saveState_effect quiet_def writes_append
          loadState_def readFileSync_def JSON_parse_def)
qed

theorem backlog_skip_witness:
  "retryWithBackoff (fetchRSSFeed cfg0) 3 1000
       (world0 100 [hn_item ''99'' 900000000, hn_item ''101'' 0, hn_item ''102'' 0] (\<lambda>k. None))
     = (Inr [hn_story ''99'' 99 900000000, hn_story ''101'' 101 0, hn_story ''102'' 102 0],
        (world0 100 [hn_item ''99'' 900000000, hn_item ''101'' 0, hn_item ''102'' 0]
           (\<lambda>k. None))\<lparr>fetches := 1, events := [FetchCall]\<rparr>) \<and>
   100 = lastStoryId (loadState
       (files (world0 100 [hn_item ''99'' 900000000, hn_item ''101'' 0, hn_item ''102'' 0]
          (\<lambda>k. None))) (stateFile None)) \<and>
   100 < story_id (hn_story ''101'' 101 0) \<and>
   \<not> 100 < story_id (hn_story ''99'' 99 900000000) \<and>
   1000000000 - publishedAt (hn_story ''99'' 99 900000000)
     \<le> maxStoryAgeHours cfg0 * 60 * 60 * 1000 \<and>
   1000000000 - publishedAt (hn_story ''101'' 101 0) > maxStoryAgeHours cfg0 * 60 * 60 * 1000 \<and>
   1000000000 - publishedAt (hn_story ''102'' 102 0) > maxStoryAgeHours cfg0 * 60 * 60 * 1000 \<and>
   102 = Max (story_id `
      {s \<in> set [hn_story ''99'' 99 900000000, hn_story ''101'' 101 0, hn_story ''102'' 102 0].
         100 < story_id s}) \<and>
   posted (snd (main cfg0 None
       (world0 100 [hn_item ''99'' 900000000, hn_item ''101'' 0, hn_item ''102'' 0]
          (\<lambda>k. None)))) = [] \<and>
   writes (events (snd (main cfg0 None
       (world0 100 [hn_item ''99'' 900000000, hn_item ''101'' 0, hn_item ''102'' 0]
          (\<lambda>k. None)))))
     = [(''last-processed.json'', StateJson \<lparr>lastStoryId = 102\<rparr>)] \<and>
   loadState (files (snd (main cfg0 None
       (world0 100 [hn_item ''99'' 900000000, hn_item ''101'' 0, hn_item ''102'' 0]
          (\<lambda>k. None))))) (stateFile None)
     = \<lparr>lastStoryId = 102\<rparr>"
proof -
  have mx: "Max (story_id `
      {s \<in> set [hn_story ''99'' 99 900000000, hn_story ''101'' 101 0, hn_story ''102'' 102 0].
         100 < story_id s}) = 102"
  proof -
    have "{s \<in> set [hn_story ''99'' 99 900000000, hn_story ''101'' 101 0,
                      hn_story ''102'' 102 0]. 100 < story_id s}
            = {hn_story ''101'' 101 0, hn_story ''102'' 102 0}"
      by (auto simp add: hn_story_def)
    then show ?thesis by (simp add: hn_story_def)
  qed
  have run: "main cfg0 None
      (world0 100 [hn_item ''99'' 900000000, hn_item ''101'' 0, hn_item ''102'' 0] (\<lambda>k. None))
    = (0, (world0 100 [hn_item ''99'' 900000000, hn_item ''101'' 0, hn_item ''102'' 0] (\<lambda>k. None))
            \<lparr>files := [''last-processed.json'' \<mapsto> StateJson \<lparr>lastStoryId = 102\<rparr>],
             fetches := 1,
             events := [FetchCall,
               Write ''last-processed.json'' (StateJson \<lparr>lastStoryId = 102\<rparr>)]\<rparr>)"
    by (simp add: world_defs run_defs)
  show ?thesis
    using run backlog_skip [of cfg0
      "world0 100 [hn_item ''99'' 900000000, hn_item ''101'' 0, hn_item ''102'' 0] (\<lambda>k. None)"
      "[hn_story ''99'' 99 900000000, hn_story ''101'' 101 0, hn_story ''102'' 102 0]"
      "(world0 100 [hn_item ''99'' 900000000, hn_item ''101'' 0, hn_item ''102'' 0]
           (\<lambda>k. None))\<lparr>fetches := 1, events := [FetchCall]\<rparr>"
      100 None 102]
    unfolding mx
    by (simp add: world_defs run_defs)
qed

section \<open>Dry runs\<close>

lemma selection_post:
  assumes "freshStories cfg now (newStories state stories) \<noteq> []"
  shows "selection cfg state now stories =
           PostAndAdvance (freshStories cfg now (newStories state stories) ! 0)
             (story_id (freshStories cfg now (newStories state stories) ! 0))"
proof -
  have "newStories state stories \<noteq> []"
    using assms by (auto simp add: freshStories_def)
  then show ?thesis using assms by (simp add: selection_def Let_def)
qed

text \<open>
  C1. With \<open>dryRun\<close> set: when some novel story is fresh, the run ends with exit code 0
  in the world that fetching left, so the state file and all other files are as
  before the run, nothing is posted and Bluesky is not called; when there are novel
  stories and none is fresh, the run still writes the greatest novel id to the state
  file.
\<close>

theorem dry_run_skips_post_and_save:
  assumes "dryRun cfg"
    and "retryWithBackoff (fetchRSSFeed cfg) 3 1000 w = (Inr stories, w1)"
    and "new = newStories (loadState (files w) (stateFile argv2)) stories"
  shows "(freshStories cfg (clock w1) new \<noteq> [] \<longrightarrow>
            main cfg argv2 w = (0, w1) \<and> files w1 = files w \<and> posted w1 = posted w \<and>
            logins w1 = logins w \<and> writes (events w1) = writes (events w)) \<and>
         (new \<noteq> [] \<and> freshStories cfg (clock w1) new = [] \<longrightarrow>
            fst (main cfg argv2 w) = 0 \<and>
            files (snd (main cfg argv2 w)) =
              (files w)(stateFile argv2 \<mapsto> StateJson \<lparr>lastStoryId = Max (story_id ` set new)\<rparr>) \<and>
            writes (events (snd (main cfg argv2 w))) =
              writes (events w) @
                [(stateFile argv2, StateJson \<lparr>lastStoryId = Max (story_id ` set new)\<rparr>)] \<and>
            posted (snd (main cfg argv2 w)) = posted w)"
proof -
  have q: "quiet w w1" "logins w1 = logins w"
    using fetch_retry [OF assms(2)] by simp_all
  have a: "main cfg argv2 w = (0, w1)" if "freshStories cfg (clock w1) new \<noteq> []"
    using that assms(1,3) by (simp add: main_selection [OF assms(2)] selection_post)
  have b: "main cfg argv2 w =
      (0, saveState (stateFile argv2) \<lparr>lastStoryId = Max (story_id ` set new)\<rparr> w1)"
    if "new \<noteq> []" "freshStories cfg (clock w1) new = []"
    using main_advance [OF assms(2)] that assms(3) by simp
  show ?thesis
    using q a b by (auto simp add: quiet_def saveState_effect writes_append)
qed

theorem dry_run_skips_post_and_save_witness:
  "dryRun (cfg0\<lparr>dryRun := True\<rparr>) \<and>
   retryWithBackoff (fetchRSSFeed (cfg0\<lparr>dryRun := True\<rparr>)) 3 1000
       (world0 100 [hn_item ''101'' 900000000] (\<lambda>k. None))
     = (Inr [hn_story ''101'' 101 900000000],
        (world0 100 [hn_item ''101'' 900000000] (\<lambda>k. None))
          \<lparr>fetches := 1, events := [FetchCall]\<rparr>) \<and>
   freshStories (cfg0\<lparr>dryRun := True\<rparr>) 1000000000 [hn_story ''101'' 101 900000000] \<noteq> [] \<and>
   main (cfg0\<lparr>dryRun := True\<rparr>) None (world0 100 [hn_item ''101'' 900000000] (\<lambda>k. None))
     = (0, (world0 100 [hn_item ''101'' 900000000] (\<lambda>k. None))
          \<lparr>fetches := 1, events := [FetchCall]\<rparr>) \<and>
   retryWithBackoff (fetchRSSFeed (cfg0\<lparr>dryRun := True\<rparr>)) 3 1000
       (world0 100 [hn_item ''101'' 0] (\<lambda>k. None))
     = (Inr [hn_story ''101'' 101 0],
        (world0 100 [hn_item ''101'' 0] (\<lambda>k. None))\<lparr>fetches := 1, events := [FetchCall]\<rparr>) \<and>
   freshStories (cfg0\<lparr>dryRun := True\<rparr>) 1000000000 [hn_story ''101'' 101 0] = [] \<and>
   files (snd (main (cfg0\<lparr>dryRun := True\<rparr>) None (world0 100 [hn_item ''101'' 0] (\<lambda>k. None))))
     = [''last-processed.json'' \<mapsto> StateJson \<lparr>lastStoryId = 101\<rparr>]"
  using
    dry_run_skips_post_and_save [of "cfg0\<lparr>dryRun := True\<rparr>"
      "world0 100 [hn_item ''101'' 900000000] (\<lambda>k. None)"
      "[hn_story ''101'' 101 900000000]"
      "(world0 100 [hn_item ''101'' 900000000] (\<lambda>k. None))\<lparr>fetches := 1, events := [FetchCall]\<rparr>"
      "[hn_story ''101'' 101 900000000]" None]
    dry_run_skips_post_and_save [of "cfg0\<lparr>dryRun := True\<rparr>"
      "world0 100 [hn_item ''101'' 0] (\<lambda>k. None)"
      "[hn_story ''101'' 101 0]"
      "(world0 100 [hn_item ''101'' 0] (\<lambda>k. None))\<lparr>fetches := 1, events := [FetchCall]\<rparr>"
      "[hn_story ''101'' 101 0]" None]
  by (simp add: world_defs run_defs)

text \<open>The second script saves the id of the story in a dry run as well.\<close>

lemma main_rss_dry_run_saves:
  assumes "dryRun cfg"
    and "retryWithBackoff fetchRSSFeed2 3 1000 w = (Inr stories, w1)"
    and "fresh = freshStories cfg (clock w1)
           (newStories (loadState (files w) (stateFile argv2)) stories)"
    and "fresh \<noteq> []"
  shows "main_rss fetchRSSFeed2 postToBluesky2 cfg argv2 w =
           (0, saveState (stateFile argv2) \<lparr>lastStoryId = story_id (fresh ! 0)\<rparr> w1)"
proof -
  have "newStories (loadState (files w) (stateFile argv2)) stories \<noteq> []"
    using assms(3,4) by (auto simp add: freshStories_def)
  then show ?thesis
    using assms by (simp add: main_rss_def Let_def BotState_update)
qed

section \<open>Freshness\<close>



section \<open>The oldest fresh story\<close>

lemma sorted_first_least:
  assumes "sorted (map f xs)" and "xs \<noteq> []"
  shows "xs ! 0 \<in> set xs \<and> (\<forall>x \<in> set xs. f (xs ! 0) \<le> f x)"
  using assms by (cases xs) auto

lemma fresh_sorted:
  assumes "sorted (map story_id stories)"
  shows "sorted (map story_id (freshStories cfg now (newStories state stories)))"
  using assms by (simp add: freshStories_def newStories_def sorted_filter)

lemma main_posted:
  assumes f: "retryWithBackoff (fetchRSSFeed cfg) 3 1000 w = (Inr stories, w1)"
    and fr: "fresh = freshStories cfg (clock w1)
               (newStories (loadState (files w) (stateFile argv2)) stories)"
    and ne: "fresh \<noteq> []"
    and d: "\<not> dryRun cfg"
    and p: "retryWithBackoff (postToBluesky cfg (fresh ! 0)) 3 2000 w1 = (Inr u, w2)"
  shows "main cfg argv2 w =
           (0, saveState (stateFile argv2) \<lparr>lastStoryId = story_id (fresh ! 0)\<rparr> w2)"
    and "\<exists>w0. quiet w w0 \<and>
           w2 = w0\<lparr>logins := logins w0 + 1, posted := posted w0 @ [fresh ! 0],
                    events := events w0 @ [Posted (fresh ! 0)]\<rparr>"
proof -
  show "main cfg argv2 w =
           (0, saveState (stateFile argv2) \<lparr>lastStoryId = story_id (fresh ! 0)\<rparr> w2)"
    using ne d p unfolding fr by (simp add: main_selection [OF f] selection_post)
  obtain w0 where "quiet w1 w0"
    "w2 = w0\<lparr>logins := logins w0 + 1, posted := posted w0 @ [fresh ! 0],
             events := events w0 @ [Posted (fresh ! 0)]\<rparr>"
    using post_retry [OF p] by auto
  moreover have "quiet w w1" using fetch_retry [OF f] by simp
  ultimately show "\<exists>w0. quiet w w0 \<and>
           w2 = w0\<lparr>logins := logins w0 + 1, posted := posted w0 @ [fresh ! 0],
                    events := events w0 @ [Posted (fresh ! 0)]\<rparr>"
    using quiet_trans by blast
qed

lemma main_post_failed:
  assumes f: "retryWithBackoff (fetchRSSFeed cfg) 3 1000 w = (Inr stories, w1)"
    and fr: "fresh = freshStories cfg (clock w1)
               (newStories (loadState (files w) (stateFile argv2)) stories)"
    and ne: "fresh \<noteq> []"
    and d: "\<not> dryRun cfg"
    and p: "retryWithBackoff (postToBluesky cfg (fresh ! 0)) 3 2000 w1 = (Inl e, w2)"
  shows "main cfg argv2 w = (1, w2)" and "quiet w w2"
proof -
  show "main cfg argv2 w = (1, w2)"
    using ne d p unfolding fr by (simp add: main_selection [OF f] selection_post)
  have "quiet w1 w2" using post_retry [OF p] by simp
  moreover have "quiet w w1" using fetch_retry [OF f] by simp
  ultimately show "quiet w w2" using quiet_trans by blast
qed

text \<open>
  C3. When the fetched list has a story with an id above the stored cursor and within
  the age limit, the story that the run takes for posting, \<open>freshStories[0]\<close>, is a
  story of the fetched list, above the cursor and within the limit, and its id is the
  least among the stories of the list that are above the cursor and within the limit.
  A run that is not dry and whose post goes through posts this story and no other, and
  stores its id as the cursor.
\<close>

theorem oldest_first:
  assumes "retryWithBackoff (fetchRSSFeed cfg) 3 1000 w = (Inr stories, w1)"
    and "cursor = lastStoryId (loadState (files w) (stateFile argv2))"
    and "limit = maxStoryAgeHours cfg * 60 * 60 * 1000"
    and "\<exists>s \<in> set stories. cursor < story_id s \<and> clock w1 - publishedAt s \<le> limit"
    and "chosen = freshStories cfg (clock w1)
           (newStories (loadState (files w) (stateFile argv2)) stories) ! 0"
  shows "chosen \<in> set stories \<and> cursor < story_id chosen \<and>
         clock w1 - publishedAt chosen \<le> limit \<and>
         (\<forall>s \<in> set stories. cursor < story_id s \<and> clock w1 - publishedAt s \<le> limit \<longrightarrow>
            story_id chosen \<le> story_id s) \<and>
         story_id chosen =
           Min (story_id ` {s \<in> set stories.
                  cursor < story_id s \<and> clock w1 - publishedAt s \<le> limit}) \<and>
         selection cfg (loadState (files w) (stateFile argv2)) (clock w1) stories =
           PostAndAdvance chosen (story_id chosen) \<and>
         (\<not> dryRun cfg \<and>
          retryWithBackoff (postToBluesky cfg chosen) 3 2000 w1 = (Inr u, w2) \<longrightarrow>
            posted (snd (main cfg argv2 w)) = posted w @ [chosen] \<and>
            loadState (files (snd (main cfg argv2 w))) (stateFile argv2) =
              \<lparr>lastStoryId = story_id chosen\<rparr>)"
proof -
  let ?state = "loadState (files w) (stateFile argv2)"
  let ?fresh = "freshStories cfg (clock w1) (newStories ?state stories)"
  let ?C = "{s \<in> set stories. cursor < story_id s \<and> clock w1 - publishedAt s \<le> limit}"
  have sf: "set ?fresh = ?C"
    unfolding assms(2,3) by (auto simp add: freshStories_def newStories_def maxAgeMs_def)
  have ne: "?fresh \<noteq> []"
    using assms(4) sf by auto
  have "sorted (map story_id stories)"
    using fetch_retry [OF assms(1)] by simp
  then have "sorted (map story_id ?fresh)"
    by (rule fresh_sorted)
  then have least: "?fresh ! 0 \<in> set ?fresh \<and> (\<forall>s \<in> set ?fresh. story_id (?fresh ! 0) \<le> story_id s)"
    using ne by (rule sorted_first_least)
  have ch: "chosen = ?fresh ! 0" by (rule assms(5))
  have inC: "chosen \<in> ?C" using least sf ch by simp
  have le: "\<forall>s \<in> ?C. story_id chosen \<le> story_id s" using least sf ch by simp
  have "Min (story_id ` ?C) = story_id chosen"
    using inC le by (intro Min_eqI) auto
  then have mn: "story_id chosen = Min (story_id ` ?C)" by simp
  have sel: "selection cfg ?state (clock w1) stories = PostAndAdvance chosen (story_id chosen)"
    unfolding ch using ne by (rule selection_post)
  have run: "posted (snd (main cfg argv2 w)) = posted w @ [chosen] \<and>
            loadState (files (snd (main cfg argv2 w))) (stateFile argv2) =
              \<lparr>lastStoryId = story_id chosen\<rparr>"
    if d: "\<not> dryRun cfg"
      and p: "retryWithBackoff (postToBluesky cfg chosen) 3 2000 w1 = (Inr u, w2)"
    using main_posted [OF assms(1) refl ne d p [unfolded ch]] ch
    by (auto simp add: saveState_effect quiet_def loadState_def readFileSync_def JSON_parse_def)
  show ?thesis using inC le mn sel run by blast
qed


theorem oldest_first_witness:
  "retryWithBackoff (fetchRSSFeed cfg0) 3 1000
       (world0 100 [hn_item ''99'' 900000000, hn_item ''101'' 0, hn_item ''105'' 900000000,
                    hn_item ''102'' 900000000, hn_item ''108'' 900000000] (\<lambda>k. None))
     = (Inr [hn_story ''99'' 99 900000000, hn_story ''101'' 101 0, hn_story ''102'' 102 900000000,
      hn_story ''105'' 105 900000000, hn_story ''108'' 108 900000000],
        ((world0 100 [hn_item ''99'' 900000000, hn_item ''101'' 0, hn_item ''105'' 900000000,
                    hn_item ''102'' 900000000, hn_item ''108'' 900000000] (\<lambda>k. None))\<lparr>fetches := 1, events := [FetchCall]\<rparr>)) \<and>
   100 = lastStoryId (loadState (files (world0 100 [hn_item ''99'' 900000000, hn_item ''101'' 0, hn_item ''105'' 900000000,
                    hn_item ''102'' 900000000, hn_item ''108'' 900000000] (\<lambda>k. None))) (stateFile None)) \<and>
   hn_story ''102'' 102 900000000
     = freshStories cfg0 1000000000 (newStories \<lparr>lastStoryId = 100\<rparr> [hn_story ''99'' 99 900000000, hn_story ''101'' 101 0, hn_story ''102'' 102 900000000,
      hn_story ''105'' 105 900000000, hn_story ''108'' 108 900000000]) ! 0 \<and>
   100 < story_id (hn_story ''102'' 102 900000000) \<and>
   1000000000 - publishedAt (hn_story ''102'' 102 900000000)
     \<le> maxStoryAgeHours cfg0 * 60 * 60 * 1000 \<and>
   story_id (hn_story ''101'' 101 0) < story_id (hn_story ''102'' 102 900000000) \<and>
   1000000000 - publishedAt (hn_story ''101'' 101 0) > maxStoryAgeHours cfg0 * 60 * 60 * 1000 \<and>
   story_id (hn_story ''99'' 99 900000000) < story_id (hn_story ''102'' 102 900000000) \<and>
   \<not> 100 < story_id (hn_story ''99'' 99 900000000) \<and>
   selection cfg0 \<lparr>lastStoryId = 100\<rparr> 1000000000 [hn_story ''99'' 99 900000000, hn_story ''101'' 101 0, hn_story ''102'' 102 900000000,
      hn_story ''105'' 105 900000000, hn_story ''108'' 108 900000000]
     = PostAndAdvance (hn_story ''102'' 102 900000000) 102 \<and>
   retryWithBackoff (postToBluesky cfg0 (hn_story ''102'' 102 900000000)) 3 2000
       ((world0 100 [hn_item ''99'' 900000000, hn_item ''101'' 0, hn_item ''105'' 900000000,
                    hn_item ''102'' 900000000, hn_item ''108'' 900000000] (\<lambda>k. None))\<lparr>fetches := 1, events := [FetchCall]\<rparr>)
     = (Inr (), ((world0 100 [hn_item ''99'' 900000000, hn_item ''101'' 0, hn_item ''105'' 900000000,
                    hn_item ''102'' 900000000, hn_item ''108'' 900000000] (\<lambda>k. None))\<lparr>fetches := 1, logins := 1, posted := [hn_story ''102'' 102 900000000],
          events := [FetchCall, Posted (hn_story ''102'' 102 900000000)]\<rparr>)) \<and>
   posted (snd (main cfg0 None (world0 100 [hn_item ''99'' 900000000, hn_item ''101'' 0, hn_item ''105'' 900000000,
                    hn_item ''102'' 900000000, hn_item ''108'' 900000000] (\<lambda>k. None)))) = [hn_story ''102'' 102 900000000] \<and>
   loadState (files (snd (main cfg0 None (world0 100 [hn_item ''99'' 900000000, hn_item ''101'' 0, hn_item ''105'' 900000000,
                    hn_item ''102'' 900000000, hn_item ''108'' 900000000] (\<lambda>k. None))))) (stateFile None) = \<lparr>lastStoryId = 102\<rparr>"
  using oldest_first [of cfg0
      "(world0 100 [hn_item ''99'' 900000000, hn_item ''101'' 0, hn_item ''105'' 900000000,
                    hn_item ''102'' 900000000, hn_item ''108'' 900000000] (\<lambda>k. None))"
      "[hn_story ''99'' 99 900000000, hn_story ''101'' 101 0, hn_story ''102'' 102 900000000,
      hn_story ''105'' 105 900000000, hn_story ''108'' 108 900000000]"
      "((world0 100 [hn_item ''99'' 900000000, hn_item ''101'' 0, hn_item ''105'' 900000000,
                    hn_item ''102'' 900000000, hn_item ''108'' 900000000] (\<lambda>k. None))\<lparr>fetches := 1, events := [FetchCall]\<rparr>)"
      100 None "maxStoryAgeHours cfg0 * 60 * 60 * 1000" "hn_story ''102'' 102 900000000" "()"
      "((world0 100 [hn_item ''99'' 900000000, hn_item ''101'' 0, hn_item ''105'' 900000000,
                    hn_item ''102'' 900000000, hn_item ''108'' 900000000] (\<lambda>k. None))\<lparr>fetches := 1, logins := 1, posted := [hn_story ''102'' 102 900000000],
          events := [FetchCall, Posted (hn_story ''102'' 102 900000000)]\<rparr>)"]
  by (simp add: world_defs run_defs)

section \<open>Publishing before saving\<close>

text \<open>The three attempts of \<open>retryWithBackoff\<close> written out: the pauses are
  \<open>baseDelayMs\<close> and twice \<open>baseDelayMs\<close>, and the error of the third attempt is thrown.\<close>

lemma retry_three:
  "retryWithBackoff operation 3 b w =
     (case operation w of
        (Inr v, wa) \<Rightarrow> (Inr v, wa)
      | (Inl e1, wa) \<Rightarrow>
          (case operation (sleep b wa) of
             (Inr v, wb) \<Rightarrow> (Inr v, wb)
           | (Inl e2, wb) \<Rightarrow>
               (case operation (sleep (b * 2) wb) of
                  (Inr v, wc) \<Rightarrow> (Inr v, wc)
                | (Inl e3, wc) \<Rightarrow> (Inl e3, wc))))"
  by (simp add: retryWithBackoff_def retry_loop.simps split: prod.splits sum.splits)

text \<open>On a list sorted by id, the run decides to post a story with id \<open>i\<close> exactly when
  the list has a story with id \<open>i\<close> above the cursor and within the age limit, and no
  story above the cursor and within the limit has a smaller id.\<close>

lemma selection_post_iff:
  assumes srt: "sorted (map story_id stories)"
  shows "(\<exists>c. selection cfg state now stories = PostAndAdvance c i) \<longleftrightarrow>
         (\<exists>x \<in> set stories. story_id x = i \<and> lastStoryId state < i \<and>
            now - publishedAt x \<le> maxStoryAgeHours cfg * 60 * 60 * 1000) \<and>
         (\<forall>x \<in> set stories. lastStoryId state < story_id x \<and>
            now - publishedAt x \<le> maxStoryAgeHours cfg * 60 * 60 * 1000 \<longrightarrow> i \<le> story_id x)"
proof -
  let ?F = "freshStories cfg now (newStories state stories)"
  let ?C = "{s \<in> set stories. lastStoryId state < story_id s \<and>
              now - publishedAt s \<le> maxStoryAgeHours cfg * 60 * 60 * 1000}"
  have sf: "set ?F = ?C"
    by (auto simp add: freshStories_def newStories_def maxAgeMs_def)
  show ?thesis
  proof (cases "?F = []")
    case True
    then have "?C = {}" using sf by simp
    moreover have "\<not> (\<exists>c. selection cfg state now stories = PostAndAdvance c i)"
      using True by (simp add: selection_def Let_def)
    ultimately show ?thesis by blast
  next
    case False
    have sel: "selection cfg state now stories = PostAndAdvance (?F ! 0) (story_id (?F ! 0))"
      using False by (rule selection_post)
    have "sorted (map story_id ?F)" using srt by (rule fresh_sorted)
    then have least: "?F ! 0 \<in> set ?F \<and> (\<forall>s \<in> set ?F. story_id (?F ! 0) \<le> story_id s)"
      using False by (rule sorted_first_least)
    then have inC: "?F ! 0 \<in> ?C" and le: "\<forall>s \<in> ?C. story_id (?F ! 0) \<le> story_id s"
      using sf by simp_all
    have "(\<exists>c. selection cfg state now stories = PostAndAdvance c i) \<longleftrightarrow> i = story_id (?F ! 0)"
      using sel by auto
    also have "\<dots> \<longleftrightarrow> (\<exists>x \<in> ?C. story_id x = i) \<and> (\<forall>x \<in> ?C. i \<le> story_id x)"
    proof
      assume "i = story_id (?F ! 0)"
      then show "(\<exists>x \<in> ?C. story_id x = i) \<and> (\<forall>x \<in> ?C. i \<le> story_id x)"
        using inC le by blast
    next
      assume r: "(\<exists>x \<in> ?C. story_id x = i) \<and> (\<forall>x \<in> ?C. i \<le> story_id x)"
      then obtain x where x: "x \<in> ?C" "story_id x = i" by blast
      have "i \<le> story_id (?F ! 0)" using r inC by blast
      moreover have "story_id (?F ! 0) \<le> i" using le x by blast
      ultimately show "i = story_id (?F ! 0)" by simp
    qed
    also have "\<dots> \<longleftrightarrow>
         (\<exists>x \<in> set stories. story_id x = i \<and> lastStoryId state < i \<and>
            now - publishedAt x \<le> maxStoryAgeHours cfg * 60 * 60 * 1000) \<and>
         (\<forall>x \<in> set stories. lastStoryId state < story_id x \<and>
            now - publishedAt x \<le> maxStoryAgeHours cfg * 60 * 60 * 1000 \<longrightarrow> i \<le> story_id x)"
      by auto
    finally show ?thesis .
  qed
qed


text \<open>
  C5, as the code has it. In a run that is not dry and has a fresh novel story: if
  \<open>retryWithBackoff\<close> gives up on posting, the run ends with exit code 1 in the world
  that the attempts left, in which no file has changed, nothing was written and nothing
  was posted, so the state file loads as before and the story is still novel. A later
  run that finds these files decides to post a story with this id exactly when its
  fetched list has a story with this id within the age limit at its time, and no story
  above the cursor and within the limit with a smaller id; such a run, when it is not
  dry and its post goes through, posts that story and stores the id. If posting goes
  through in the first run, the write of the state file is the effect that follows the
  post directly, and it is the only write of the run.
\<close>

theorem save_only_after_publish:
  assumes "retryWithBackoff (fetchRSSFeed cfg) 3 1000 w = (Inr stories, w1)"
    and "fresh = freshStories cfg (clock w1)
           (newStories (loadState (files w) (stateFile argv2)) stories)"
    and "fresh \<noteq> []"
    and "\<not> dryRun cfg"
    and "cursor = lastStoryId (loadState (files w) (stateFile argv2))"
    and "chosenN = freshStories cfgN (clock wN1)
           (newStories (loadState (files wN) (stateFile argv2)) storiesN) ! 0"
  shows "(retryWithBackoff (postToBluesky cfg (fresh ! 0)) 3 2000 w1 = (Inl e, w2) \<longrightarrow>
            main cfg argv2 w = (1, w2) \<and> files w2 = files w \<and>
            writes (events w2) = writes (events w) \<and> posted w2 = posted w \<and>
            loadState (files w2) (stateFile argv2) = loadState (files w) (stateFile argv2) \<and>
            fresh ! 0 \<in> set (newStories (loadState (files w2) (stateFile argv2)) stories) \<and>
            (files wN = files w2 \<and>
             retryWithBackoff (fetchRSSFeed cfgN) 3 1000 wN = (Inr storiesN, wN1) \<longrightarrow>
               ((\<exists>c. selection cfgN (loadState (files wN) (stateFile argv2)) (clock wN1) storiesN =
                      PostAndAdvance c (story_id (fresh ! 0))) \<longleftrightarrow>
                (\<exists>x \<in> set storiesN. story_id x = story_id (fresh ! 0) \<and>
                   clock wN1 - publishedAt x \<le> maxStoryAgeHours cfgN * 60 * 60 * 1000) \<and>
                (\<forall>x \<in> set storiesN. cursor < story_id x \<and>
                   clock wN1 - publishedAt x \<le> maxStoryAgeHours cfgN * 60 * 60 * 1000 \<longrightarrow>
                   story_id (fresh ! 0) \<le> story_id x)) \<and>
               ((\<exists>c. selection cfgN (loadState (files wN) (stateFile argv2)) (clock wN1) storiesN =
                      PostAndAdvance c (story_id (fresh ! 0))) \<and>
                \<not> dryRun cfgN \<and>
                retryWithBackoff (postToBluesky cfgN chosenN) 3 2000 wN1 = (Inr uN, wN2) \<longrightarrow>
                  story_id chosenN = story_id (fresh ! 0) \<and>
                  chosenN \<in> set storiesN \<and>
                  clock wN1 - publishedAt chosenN \<le> maxStoryAgeHours cfgN * 60 * 60 * 1000 \<and>
                  posted (snd (main cfgN argv2 wN)) = posted wN @ [chosenN] \<and>
                  loadState (files (snd (main cfgN argv2 wN))) (stateFile argv2) =
                    \<lparr>lastStoryId = story_id (fresh ! 0)\<rparr>))) \<and>
         (retryWithBackoff (postToBluesky cfg (fresh ! 0)) 3 2000 w1 = (Inr u, w2) \<longrightarrow>
            fst (main cfg argv2 w) = 0 \<and>
            (\<exists>es. events (snd (main cfg argv2 w)) =
                    es @ [Posted (fresh ! 0),
                          Write (stateFile argv2)
                            (StateJson \<lparr>lastStoryId = story_id (fresh ! 0)\<rparr>)] \<and>
                  writes es = writes (events w)))"
proof -
  let ?p = "stateFile argv2"
  have mem: "fresh ! 0 \<in> set (newStories (loadState (files w) ?p) stories)"
  proof -
    have "fresh ! 0 \<in> set fresh" using assms(3) by simp
    then show ?thesis unfolding assms(2) by (simp add: freshStories_def)
  qed
  then have above: "cursor < story_id (fresh ! 0)"
    unfolding assms(5) by (simp add: newStories_def)
  have a: "main cfg argv2 w = (1, w2) \<and> files w2 = files w \<and>
            writes (events w2) = writes (events w) \<and> posted w2 = posted w \<and>
            loadState (files w2) ?p = loadState (files w) ?p \<and>
            fresh ! 0 \<in> set (newStories (loadState (files w2) ?p) stories)"
    if p: "retryWithBackoff (postToBluesky cfg (fresh ! 0)) 3 2000 w1 = (Inl e, w2)"
    using main_post_failed [OF assms(1-4) p] mem by (simp add: quiet_def)
  have n1: "(\<exists>c. selection cfgN (loadState (files wN) ?p) (clock wN1) storiesN =
                      PostAndAdvance c (story_id (fresh ! 0))) \<longleftrightarrow>
                (\<exists>x \<in> set storiesN. story_id x = story_id (fresh ! 0) \<and>
                   clock wN1 - publishedAt x \<le> maxStoryAgeHours cfgN * 60 * 60 * 1000) \<and>
                (\<forall>x \<in> set storiesN. cursor < story_id x \<and>
                   clock wN1 - publishedAt x \<le> maxStoryAgeHours cfgN * 60 * 60 * 1000 \<longrightarrow>
                   story_id (fresh ! 0) \<le> story_id x)"
    if p: "retryWithBackoff (postToBluesky cfg (fresh ! 0)) 3 2000 w1 = (Inl e, w2)"
      and fs: "files wN = files w2"
      and f: "retryWithBackoff (fetchRSSFeed cfgN) 3 1000 wN = (Inr storiesN, wN1)"
  proof -
    have c: "lastStoryId (loadState (files wN) ?p) = cursor"
      using a [OF p] fs assms(5) by simp
    have "sorted (map story_id storiesN)"
      using fetch_retry [OF f] by simp
    then show ?thesis
      using selection_post_iff [of storiesN cfgN "loadState (files wN) ?p" "clock wN1"
          "story_id (fresh ! 0)"] above
      unfolding c by simp
  qed
  have n2: "story_id chosenN = story_id (fresh ! 0) \<and>
            chosenN \<in> set storiesN \<and>
            clock wN1 - publishedAt chosenN \<le> maxStoryAgeHours cfgN * 60 * 60 * 1000 \<and>
            posted (snd (main cfgN argv2 wN)) = posted wN @ [chosenN] \<and>
            loadState (files (snd (main cfgN argv2 wN))) ?p =
              \<lparr>lastStoryId = story_id (fresh ! 0)\<rparr>"
    if f: "retryWithBackoff (fetchRSSFeed cfgN) 3 1000 wN = (Inr storiesN, wN1)"
      and s: "\<exists>c. selection cfgN (loadState (files wN) ?p) (clock wN1) storiesN =
                      PostAndAdvance c (story_id (fresh ! 0))"
      and d: "\<not> dryRun cfgN"
      and p: "retryWithBackoff (postToBluesky cfgN chosenN) 3 2000 wN1 = (Inr uN, wN2)"
  proof -
    let ?FN = "freshStories cfgN (clock wN1) (newStories (loadState (files wN) ?p) storiesN)"
    have ne: "?FN \<noteq> []"
      using s by (auto simp add: selection_def Let_def split: if_splits)
    have "selection cfgN (loadState (files wN) ?p) (clock wN1) storiesN =
            PostAndAdvance (?FN ! 0) (story_id (?FN ! 0))"
      using ne by (rule selection_post)
    then have id: "story_id chosenN = story_id (fresh ! 0)"
      using s assms(6) by auto
    have sfn: "set ?FN \<subseteq> {x \<in> set storiesN.
        clock wN1 - publishedAt x \<le> maxStoryAgeHours cfgN * 60 * 60 * 1000}"
      by (auto simp add: freshStories_def newStories_def maxAgeMs_def)
    have "?FN ! 0 \<in> set ?FN" using ne by simp
    then have "?FN ! 0 \<in> {x \<in> set storiesN.
        clock wN1 - publishedAt x \<le> maxStoryAgeHours cfgN * 60 * 60 * 1000}"
      using sfn by blast
    then have pin: "chosenN \<in> set storiesN \<and>
        clock wN1 - publishedAt chosenN \<le> maxStoryAgeHours cfgN * 60 * 60 * 1000"
      unfolding assms(6) by simp
    show ?thesis
      using main_posted [OF f refl ne d p [unfolded assms(6)]] id pin assms(6)
      by (auto simp add: saveState_effect quiet_def loadState_def readFileSync_def JSON_parse_def)
  qed
  have b: "fst (main cfg argv2 w) = 0 \<and>
            (\<exists>es. events (snd (main cfg argv2 w)) =
                    es @ [Posted (fresh ! 0),
                          Write ?p (StateJson \<lparr>lastStoryId = story_id (fresh ! 0)\<rparr>)] \<and>
                  writes es = writes (events w))"
    if p: "retryWithBackoff (postToBluesky cfg (fresh ! 0)) 3 2000 w1 = (Inr u, w2)"
  proof -
    obtain w0 where q: "quiet w w0"
      and w2: "w2 = w0\<lparr>logins := logins w0 + 1, posted := posted w0 @ [fresh ! 0],
                       events := events w0 @ [Posted (fresh ! 0)]\<rparr>"
      using main_posted(2) [OF assms(1-4) p] by blast
    have "events (snd (main cfg argv2 w)) =
            events w0 @ [Posted (fresh ! 0),
                         Write ?p (StateJson \<lparr>lastStoryId = story_id (fresh ! 0)\<rparr>)]"
      by (simp add: main_posted(1) [OF assms(1-4) p] saveState_effect w2)
    moreover have "writes (events w0) = writes (events w)"
      using q by (simp add: quiet_def)
    ultimately show ?thesis by (auto simp add: main_posted(1) [OF assms(1-4) p])
  qed
  show ?thesis using a n1 n2 b by blast
qed


theorem save_only_after_publish_witness:
  "retryWithBackoff (fetchRSSFeed cfg0) 3 1000 (world0 100 [hn_item ''101'' 900000000] (\<lambda>k. Some BlueskyError)) = (Inr [(hn_story ''101'' 101 900000000)], ((world0 100 [hn_item ''101'' 900000000] (\<lambda>k. Some BlueskyError))\<lparr>fetches := 1, events := [FetchCall]\<rparr>)) \<and>
   [(hn_story ''101'' 101 900000000)] = freshStories cfg0 (clock ((world0 100 [hn_item ''101'' 900000000] (\<lambda>k. Some BlueskyError))\<lparr>fetches := 1, events := [FetchCall]\<rparr>)) (newStories (loadState (files (world0 100 [hn_item ''101'' 900000000] (\<lambda>k. Some BlueskyError))) (stateFile None)) [(hn_story ''101'' 101 900000000)]) \<and>
   \<not> dryRun cfg0 \<and>
   retryWithBackoff (postToBluesky cfg0 ([(hn_story ''101'' 101 900000000)] ! 0)) 3 2000 ((world0 100 [hn_item ''101'' 900000000] (\<lambda>k. Some BlueskyError))\<lparr>fetches := 1, events := [FetchCall]\<rparr>) = (Inl BlueskyError, ((world0 100 [hn_item ''101'' 900000000] (\<lambda>k. Some BlueskyError))
          \<lparr>clock := 1000006000, fetches := 1, logins := 3,
           events := [FetchCall,
             PostFailed (hn_story ''101'' 101 900000000) BlueskyError, Sleep 2000,
             PostFailed (hn_story ''101'' 101 900000000) BlueskyError, Sleep 4000,
             PostFailed (hn_story ''101'' 101 900000000) BlueskyError]\<rparr>)) \<and>
   main cfg0 None (world0 100 [hn_item ''101'' 900000000] (\<lambda>k. Some BlueskyError)) = (1, ((world0 100 [hn_item ''101'' 900000000] (\<lambda>k. Some BlueskyError))
          \<lparr>clock := 1000006000, fetches := 1, logins := 3,
           events := [FetchCall,
             PostFailed (hn_story ''101'' 101 900000000) BlueskyError, Sleep 2000,
             PostFailed (hn_story ''101'' 101 900000000) BlueskyError, Sleep 4000,
             PostFailed (hn_story ''101'' 101 900000000) BlueskyError]\<rparr>)) \<and>
   files ((world0 100 [hn_item ''101'' 900000000] (\<lambda>k. Some BlueskyError))
          \<lparr>clock := 1000006000, fetches := 1, logins := 3,
           events := [FetchCall,
             PostFailed (hn_story ''101'' 101 900000000) BlueskyError, Sleep 2000,
             PostFailed (hn_story ''101'' 101 900000000) BlueskyError, Sleep 4000,
             PostFailed (hn_story ''101'' 101 900000000) BlueskyError]\<rparr>) = [''last-processed.json'' \<mapsto> StateJson \<lparr>lastStoryId = 100\<rparr>] \<and>
   files (((world0 100 [hn_item ''101'' 900000000] (\<lambda>k. Some BlueskyError))
          \<lparr>clock := 1000006000, fetches := 1, logins := 3,
           events := [FetchCall,
             PostFailed (hn_story ''101'' 101 900000000) BlueskyError, Sleep 2000,
             PostFailed (hn_story ''101'' 101 900000000) BlueskyError, Sleep 4000,
             PostFailed (hn_story ''101'' 101 900000000) BlueskyError]\<rparr>)\<lparr>bluesky := (\<lambda>k. None)\<rparr>) = files ((world0 100 [hn_item ''101'' 900000000] (\<lambda>k. Some BlueskyError))
          \<lparr>clock := 1000006000, fetches := 1, logins := 3,
           events := [FetchCall,
             PostFailed (hn_story ''101'' 101 900000000) BlueskyError, Sleep 2000,
             PostFailed (hn_story ''101'' 101 900000000) BlueskyError, Sleep 4000,
             PostFailed (hn_story ''101'' 101 900000000) BlueskyError]\<rparr>) \<and>
   retryWithBackoff (fetchRSSFeed cfg0) 3 1000 (((world0 100 [hn_item ''101'' 900000000] (\<lambda>k. Some BlueskyError))
          \<lparr>clock := 1000006000, fetches := 1, logins := 3,
           events := [FetchCall,
             PostFailed (hn_story ''101'' 101 900000000) BlueskyError, Sleep 2000,
             PostFailed (hn_story ''101'' 101 900000000) BlueskyError, Sleep 4000,
             PostFailed (hn_story ''101'' 101 900000000) BlueskyError]\<rparr>)\<lparr>bluesky := (\<lambda>k. None)\<rparr>) = (Inr [(hn_story ''101'' 101 900000000)], ((world0 100 [hn_item ''101'' 900000000] (\<lambda>k. Some BlueskyError))
          \<lparr>clock := 1000006000, bluesky := (\<lambda>k. None), fetches := 2, logins := 3,
           events := [FetchCall,
             PostFailed (hn_story ''101'' 101 900000000) BlueskyError, Sleep 2000,
             PostFailed (hn_story ''101'' 101 900000000) BlueskyError, Sleep 4000,
             PostFailed (hn_story ''101'' 101 900000000) BlueskyError, FetchCall]\<rparr>)) \<and>
   clock ((world0 100 [hn_item ''101'' 900000000] (\<lambda>k. Some BlueskyError))
          \<lparr>clock := 1000006000, bluesky := (\<lambda>k. None), fetches := 2, logins := 3,
           events := [FetchCall,
             PostFailed (hn_story ''101'' 101 900000000) BlueskyError, Sleep 2000,
             PostFailed (hn_story ''101'' 101 900000000) BlueskyError, Sleep 4000,
             PostFailed (hn_story ''101'' 101 900000000) BlueskyError, FetchCall]\<rparr>) - publishedAt (hn_story ''101'' 101 900000000) \<le> maxStoryAgeHours cfg0 * 60 * 60 * 1000 \<and>
   selection cfg0 (loadState (files (((world0 100 [hn_item ''101'' 900000000] (\<lambda>k. Some BlueskyError))
          \<lparr>clock := 1000006000, fetches := 1, logins := 3,
           events := [FetchCall,
             PostFailed (hn_story ''101'' 101 900000000) BlueskyError, Sleep 2000,
             PostFailed (hn_story ''101'' 101 900000000) BlueskyError, Sleep 4000,
             PostFailed (hn_story ''101'' 101 900000000) BlueskyError]\<rparr>)\<lparr>bluesky := (\<lambda>k. None)\<rparr>)) (stateFile None)) (clock ((world0 100 [hn_item ''101'' 900000000] (\<lambda>k. Some BlueskyError))
          \<lparr>clock := 1000006000, bluesky := (\<lambda>k. None), fetches := 2, logins := 3,
           events := [FetchCall,
             PostFailed (hn_story ''101'' 101 900000000) BlueskyError, Sleep 2000,
             PostFailed (hn_story ''101'' 101 900000000) BlueskyError, Sleep 4000,
             PostFailed (hn_story ''101'' 101 900000000) BlueskyError, FetchCall]\<rparr>)) [(hn_story ''101'' 101 900000000)]
     = PostAndAdvance (hn_story ''101'' 101 900000000) (story_id ([(hn_story ''101'' 101 900000000)] ! 0)) \<and>
   (hn_story ''101'' 101 900000000) = freshStories cfg0 (clock ((world0 100 [hn_item ''101'' 900000000] (\<lambda>k. Some BlueskyError))
          \<lparr>clock := 1000006000, bluesky := (\<lambda>k. None), fetches := 2, logins := 3,
           events := [FetchCall,
             PostFailed (hn_story ''101'' 101 900000000) BlueskyError, Sleep 2000,
             PostFailed (hn_story ''101'' 101 900000000) BlueskyError, Sleep 4000,
             PostFailed (hn_story ''101'' 101 900000000) BlueskyError, FetchCall]\<rparr>)) (newStories (loadState (files (((world0 100 [hn_item ''101'' 900000000] (\<lambda>k. Some BlueskyError))
          \<lparr>clock := 1000006000, fetches := 1, logins := 3,
           events := [FetchCall,
             PostFailed (hn_story ''101'' 101 900000000) BlueskyError, Sleep 2000,
             PostFailed (hn_story ''101'' 101 900000000) BlueskyError, Sleep 4000,
             PostFailed (hn_story ''101'' 101 900000000) BlueskyError]\<rparr>)\<lparr>bluesky := (\<lambda>k. None)\<rparr>)) (stateFile None)) [(hn_story ''101'' 101 900000000)]) ! 0 \<and>
   retryWithBackoff (postToBluesky cfg0 (hn_story ''101'' 101 900000000)) 3 2000 ((world0 100 [hn_item ''101'' 900000000] (\<lambda>k. Some BlueskyError))
          \<lparr>clock := 1000006000, bluesky := (\<lambda>k. None), fetches := 2, logins := 3,
           events := [FetchCall,
             PostFailed (hn_story ''101'' 101 900000000) BlueskyError, Sleep 2000,
             PostFailed (hn_story ''101'' 101 900000000) BlueskyError, Sleep 4000,
             PostFailed (hn_story ''101'' 101 900000000) BlueskyError, FetchCall]\<rparr>) = (Inr (), ((world0 100 [hn_item ''101'' 900000000] (\<lambda>k. Some BlueskyError))
          \<lparr>clock := 1000006000, bluesky := (\<lambda>k. None), fetches := 2, logins := 4,
           posted := [(hn_story ''101'' 101 900000000)],
           events := [FetchCall,
             PostFailed (hn_story ''101'' 101 900000000) BlueskyError, Sleep 2000,
             PostFailed (hn_story ''101'' 101 900000000) BlueskyError, Sleep 4000,
             PostFailed (hn_story ''101'' 101 900000000) BlueskyError, FetchCall,
             Posted (hn_story ''101'' 101 900000000)]\<rparr>)) \<and>
   posted (snd (main cfg0 None (((world0 100 [hn_item ''101'' 900000000] (\<lambda>k. Some BlueskyError))
          \<lparr>clock := 1000006000, fetches := 1, logins := 3,
           events := [FetchCall,
             PostFailed (hn_story ''101'' 101 900000000) BlueskyError, Sleep 2000,
             PostFailed (hn_story ''101'' 101 900000000) BlueskyError, Sleep 4000,
             PostFailed (hn_story ''101'' 101 900000000) BlueskyError]\<rparr>)\<lparr>bluesky := (\<lambda>k. None)\<rparr>))) = posted (((world0 100 [hn_item ''101'' 900000000] (\<lambda>k. Some BlueskyError))
          \<lparr>clock := 1000006000, fetches := 1, logins := 3,
           events := [FetchCall,
             PostFailed (hn_story ''101'' 101 900000000) BlueskyError, Sleep 2000,
             PostFailed (hn_story ''101'' 101 900000000) BlueskyError, Sleep 4000,
             PostFailed (hn_story ''101'' 101 900000000) BlueskyError]\<rparr>)\<lparr>bluesky := (\<lambda>k. None)\<rparr>) @ [(hn_story ''101'' 101 900000000)] \<and>
   loadState (files (snd (main cfg0 None (((world0 100 [hn_item ''101'' 900000000] (\<lambda>k. Some BlueskyError))
          \<lparr>clock := 1000006000, fetches := 1, logins := 3,
           events := [FetchCall,
             PostFailed (hn_story ''101'' 101 900000000) BlueskyError, Sleep 2000,
             PostFailed (hn_story ''101'' 101 900000000) BlueskyError, Sleep 4000,
             PostFailed (hn_story ''101'' 101 900000000) BlueskyError]\<rparr>)\<lparr>bluesky := (\<lambda>k. None)\<rparr>)))) (stateFile None) = \<lparr>lastStoryId = 101\<rparr> \<and>
   retryWithBackoff (postToBluesky cfg0 ([(hn_story ''101'' 101 900000000)] ! 0)) 3 2000 ((world0 100 [hn_item ''101'' 900000000] (\<lambda>k. None))\<lparr>fetches := 1, events := [FetchCall]\<rparr>) = (Inr (), ((world0 100 [hn_item ''101'' 900000000] (\<lambda>k. None))
          \<lparr>fetches := 1, logins := 1, posted := [(hn_story ''101'' 101 900000000)],
           events := [FetchCall, Posted (hn_story ''101'' 101 900000000)]\<rparr>)) \<and>
   events (snd (main cfg0 None (world0 100 [hn_item ''101'' 900000000] (\<lambda>k. None))))
     = [FetchCall, Posted (hn_story ''101'' 101 900000000),
        Write ''last-processed.json'' (StateJson \<lparr>lastStoryId = 101\<rparr>)]"
proof -
  have ev:
    "retryWithBackoff (fetchRSSFeed cfg0) 3 1000 (world0 100 [hn_item ''101'' 900000000] (\<lambda>k. Some BlueskyError)) = (Inr [(hn_story ''101'' 101 900000000)], ((world0 100 [hn_item ''101'' 900000000] (\<lambda>k. Some BlueskyError))\<lparr>fetches := 1, events := [FetchCall]\<rparr>)) \<and>
     [(hn_story ''101'' 101 900000000)] = freshStories cfg0 (clock ((world0 100 [hn_item ''101'' 900000000] (\<lambda>k. Some BlueskyError))\<lparr>fetches := 1, events := [FetchCall]\<rparr>)) (newStories (loadState (files (world0 100 [hn_item ''101'' 900000000] (\<lambda>k. Some BlueskyError))) (stateFile None)) [(hn_story ''101'' 101 900000000)]) \<and>
     \<not> dryRun cfg0 \<and>
     retryWithBackoff (postToBluesky cfg0 ([(hn_story ''101'' 101 900000000)] ! 0)) 3 2000 ((world0 100 [hn_item ''101'' 900000000] (\<lambda>k. Some BlueskyError))\<lparr>fetches := 1, events := [FetchCall]\<rparr>) = (Inl BlueskyError, ((world0 100 [hn_item ''101'' 900000000] (\<lambda>k. Some BlueskyError))
            \<lparr>clock := 1000006000, fetches := 1, logins := 3,
             events := [FetchCall,
               PostFailed (hn_story ''101'' 101 900000000) BlueskyError, Sleep 2000,
               PostFailed (hn_story ''101'' 101 900000000) BlueskyError, Sleep 4000,
               PostFailed (hn_story ''101'' 101 900000000) BlueskyError]\<rparr>)) \<and>
     main cfg0 None (world0 100 [hn_item ''101'' 900000000] (\<lambda>k. Some BlueskyError)) = (1, ((world0 100 [hn_item ''101'' 900000000] (\<lambda>k. Some BlueskyError))
            \<lparr>clock := 1000006000, fetches := 1, logins := 3,
             events := [FetchCall,
               PostFailed (hn_story ''101'' 101 900000000) BlueskyError, Sleep 2000,
               PostFailed (hn_story ''101'' 101 900000000) BlueskyError, Sleep 4000,
               PostFailed (hn_story ''101'' 101 900000000) BlueskyError]\<rparr>)) \<and>
     files ((world0 100 [hn_item ''101'' 900000000] (\<lambda>k. Some BlueskyError))
            \<lparr>clock := 1000006000, fetches := 1, logins := 3,
             events := [FetchCall,
               PostFailed (hn_story ''101'' 101 900000000) BlueskyError, Sleep 2000,
               PostFailed (hn_story ''101'' 101 900000000) BlueskyError, Sleep 4000,
               PostFailed (hn_story ''101'' 101 900000000) BlueskyError]\<rparr>) = [''last-processed.json'' \<mapsto> StateJson \<lparr>lastStoryId = 100\<rparr>] \<and>
     files (((world0 100 [hn_item ''101'' 900000000] (\<lambda>k. Some BlueskyError))
            \<lparr>clock := 1000006000, fetches := 1, logins := 3,
             events := [FetchCall,
               PostFailed (hn_story ''101'' 101 900000000) BlueskyError, Sleep 2000,
               PostFailed (hn_story ''101'' 101 900000000) BlueskyError, Sleep 4000,
               PostFailed (hn_story ''101'' 101 900000000) BlueskyError]\<rparr>)\<lparr>bluesky := (\<lambda>k. None)\<rparr>) = files ((world0 100 [hn_item ''101'' 900000000] (\<lambda>k. Some BlueskyError))
            \<lparr>clock := 1000006000, fetches := 1, logins := 3,
             events := [FetchCall,
               PostFailed (hn_story ''101'' 101 900000000) BlueskyError, Sleep 2000,
               PostFailed (hn_story ''101'' 101 900000000) BlueskyError, Sleep 4000,
               PostFailed (hn_story ''101'' 101 900000000) BlueskyError]\<rparr>) \<and>
     retryWithBackoff (fetchRSSFeed cfg0) 3 1000 (((world0 100 [hn_item ''101'' 900000000] (\<lambda>k. Some BlueskyError))
            \<lparr>clock := 1000006000, fetches := 1, logins := 3,
             events := [FetchCall,
               PostFailed (hn_story ''101'' 101 900000000) BlueskyError, Sleep 2000,
               PostFailed (hn_story ''101'' 101 900000000) BlueskyError, Sleep 4000,
               PostFailed (hn_story ''101'' 101 900000000) BlueskyError]\<rparr>)\<lparr>bluesky := (\<lambda>k. None)\<rparr>) = (Inr [(hn_story ''101'' 101 900000000)], ((world0 100 [hn_item ''101'' 900000000] (\<lambda>k. Some BlueskyError))
            \<lparr>clock := 1000006000, bluesky := (\<lambda>k. None), fetches := 2, logins := 3,
             events := [FetchCall,
               PostFailed (hn_story ''101'' 101 900000000) BlueskyError, Sleep 2000,
               PostFailed (hn_story ''101'' 101 900000000) BlueskyError, Sleep 4000,
               PostFailed (hn_story ''101'' 101 900000000) BlueskyError, FetchCall]\<rparr>)) \<and>
     clock ((world0 100 [hn_item ''101'' 900000000] (\<lambda>k. Some BlueskyError))
            \<lparr>clock := 1000006000, bluesky := (\<lambda>k. None), fetches := 2, logins := 3,
             events := [FetchCall,
               PostFailed (hn_story ''101'' 101 900000000) BlueskyError, Sleep 2000,
               PostFailed (hn_story ''101'' 101 900000000) BlueskyError, Sleep 4000,
               PostFailed (hn_story ''101'' 101 900000000) BlueskyError, FetchCall]\<rparr>) - publishedAt (hn_story ''101'' 101 900000000) \<le> maxStoryAgeHours cfg0 * 60 * 60 * 1000 \<and>
     selection cfg0 (loadState (files (((world0 100 [hn_item ''101'' 900000000] (\<lambda>k. Some BlueskyError))
            \<lparr>clock := 1000006000, fetches := 1, logins := 3,
             events := [FetchCall,
               PostFailed (hn_story ''101'' 101 900000000) BlueskyError, Sleep 2000,
               PostFailed (hn_story ''101'' 101 900000000) BlueskyError, Sleep 4000,
               PostFailed (hn_story ''101'' 101 900000000) BlueskyError]\<rparr>)\<lparr>bluesky := (\<lambda>k. None)\<rparr>)) (stateFile None)) (clock ((world0 100 [hn_item ''101'' 900000000] (\<lambda>k. Some BlueskyError))
            \<lparr>clock := 1000006000, bluesky := (\<lambda>k. None), fetches := 2, logins := 3,
             events := [FetchCall,
               PostFailed (hn_story ''101'' 101 900000000) BlueskyError, Sleep 2000,
               PostFailed (hn_story ''101'' 101 900000000) BlueskyError, Sleep 4000,
               PostFailed (hn_story ''101'' 101 900000000) BlueskyError, FetchCall]\<rparr>)) [(hn_story ''101'' 101 900000000)]
       = PostAndAdvance (hn_story ''101'' 101 900000000) (story_id ([(hn_story ''101'' 101 900000000)] ! 0)) \<and>
     (hn_story ''101'' 101 900000000) = freshStories cfg0 (clock ((world0 100 [hn_item ''101'' 900000000] (\<lambda>k. Some BlueskyError))
            \<lparr>clock := 1000006000, bluesky := (\<lambda>k. None), fetches := 2, logins := 3,
             events := [FetchCall,
               PostFailed (hn_story ''101'' 101 900000000) BlueskyError, Sleep 2000,
               PostFailed (hn_story ''101'' 101 900000000) BlueskyError, Sleep 4000,
               PostFailed (hn_story ''101'' 101 900000000) BlueskyError, FetchCall]\<rparr>)) (newStories (loadState (files (((world0 100 [hn_item ''101'' 900000000] (\<lambda>k. Some BlueskyError))
            \<lparr>clock := 1000006000, fetches := 1, logins := 3,
             events := [FetchCall,
               PostFailed (hn_story ''101'' 101 900000000) BlueskyError, Sleep 2000,
               PostFailed (hn_story ''101'' 101 900000000) BlueskyError, Sleep 4000,
               PostFailed (hn_story ''101'' 101 900000000) BlueskyError]\<rparr>)\<lparr>bluesky := (\<lambda>k. None)\<rparr>)) (stateFile None)) [(hn_story ''101'' 101 900000000)]) ! 0 \<and>
     retryWithBackoff (postToBluesky cfg0 (hn_story ''101'' 101 900000000)) 3 2000 ((world0 100 [hn_item ''101'' 900000000] (\<lambda>k. Some BlueskyError))
            \<lparr>clock := 1000006000, bluesky := (\<lambda>k. None), fetches := 2, logins := 3,
             events := [FetchCall,
               PostFailed (hn_story ''101'' 101 900000000) BlueskyError, Sleep 2000,
               PostFailed (hn_story ''101'' 101 900000000) BlueskyError, Sleep 4000,
               PostFailed (hn_story ''101'' 101 900000000) BlueskyError, FetchCall]\<rparr>) = (Inr (), ((world0 100 [hn_item ''101'' 900000000] (\<lambda>k. Some BlueskyError))
            \<lparr>clock := 1000006000, bluesky := (\<lambda>k. None), fetches := 2, logins := 4,
             posted := [(hn_story ''101'' 101 900000000)],
             events := [FetchCall,
               PostFailed (hn_story ''101'' 101 900000000) BlueskyError, Sleep 2000,
               PostFailed (hn_story ''101'' 101 900000000) BlueskyError, Sleep 4000,
               PostFailed (hn_story ''101'' 101 900000000) BlueskyError, FetchCall,
               Posted (hn_story ''101'' 101 900000000)]\<rparr>)) \<and>
     posted (snd (main cfg0 None (((world0 100 [hn_item ''101'' 900000000] (\<lambda>k. Some BlueskyError))
            \<lparr>clock := 1000006000, fetches := 1, logins := 3,
             events := [FetchCall,
               PostFailed (hn_story ''101'' 101 900000000) BlueskyError, Sleep 2000,
               PostFailed (hn_story ''101'' 101 900000000) BlueskyError, Sleep 4000,
               PostFailed (hn_story ''101'' 101 900000000) BlueskyError]\<rparr>)\<lparr>bluesky := (\<lambda>k. None)\<rparr>))) = posted (((world0 100 [hn_item ''101'' 900000000] (\<lambda>k. Some BlueskyError))
            \<lparr>clock := 1000006000, fetches := 1, logins := 3,
             events := [FetchCall,
               PostFailed (hn_story ''101'' 101 900000000) BlueskyError, Sleep 2000,
               PostFailed (hn_story ''101'' 101 900000000) BlueskyError, Sleep 4000,
               PostFailed (hn_story ''101'' 101 900000000) BlueskyError]\<rparr>)\<lparr>bluesky := (\<lambda>k. None)\<rparr>) @ [(hn_story ''101'' 101 900000000)] \<and>
     loadState (files (snd (main cfg0 None (((world0 100 [hn_item ''101'' 900000000] (\<lambda>k. Some BlueskyError))
            \<lparr>clock := 1000006000, fetches := 1, logins := 3,
             events := [FetchCall,
               PostFailed (hn_story ''101'' 101 900000000) BlueskyError, Sleep 2000,
               PostFailed (hn_story ''101'' 101 900000000) BlueskyError, Sleep 4000,
               PostFailed (hn_story ''101'' 101 900000000) BlueskyError]\<rparr>)\<lparr>bluesky := (\<lambda>k. None)\<rparr>)))) (stateFile None) = \<lparr>lastStoryId = 101\<rparr> \<and>
     retryWithBackoff (postToBluesky cfg0 ([(hn_story ''101'' 101 900000000)] ! 0)) 3 2000 ((world0 100 [hn_item ''101'' 900000000] (\<lambda>k. None))\<lparr>fetches := 1, events := [FetchCall]\<rparr>) = (Inr (), ((world0 100 [hn_item ''101'' 900000000] (\<lambda>k. None))
            \<lparr>fetches := 1, logins := 1, posted := [(hn_story ''101'' 101 900000000)],
             events := [FetchCall, Posted (hn_story ''101'' 101 900000000)]\<rparr>)) \<and>
     events (snd (main cfg0 None (world0 100 [hn_item ''101'' 900000000] (\<lambda>k. None))))
       = [FetchCall, Posted (hn_story ''101'' 101 900000000),
          Write ''last-processed.json'' (StateJson \<lparr>lastStoryId = 101\<rparr>)]"
    by (simp add: world_defs run_defs)
  show ?thesis
    using ev
      save_only_after_publish [where cfg = cfg0 and w = "(world0 100 [hn_item ''101'' 900000000] (\<lambda>k. Some BlueskyError))" and stories = "[(hn_story ''101'' 101 900000000)]"
        and ?w1.0 = "((world0 100 [hn_item ''101'' 900000000] (\<lambda>k. Some BlueskyError))\<lparr>fetches := 1, events := [FetchCall]\<rparr>)" and fresh = "[(hn_story ''101'' 101 900000000)]" and ?argv2.0 = None and cursor = 100
        and chosenN = "(hn_story ''101'' 101 900000000)" and cfgN = cfg0 and wN = "(((world0 100 [hn_item ''101'' 900000000] (\<lambda>k. Some BlueskyError))
            \<lparr>clock := 1000006000, fetches := 1, logins := 3,
             events := [FetchCall,
               PostFailed (hn_story ''101'' 101 900000000) BlueskyError, Sleep 2000,
               PostFailed (hn_story ''101'' 101 900000000) BlueskyError, Sleep 4000,
               PostFailed (hn_story ''101'' 101 900000000) BlueskyError]\<rparr>)\<lparr>bluesky := (\<lambda>k. None)\<rparr>)" and storiesN = "[(hn_story ''101'' 101 900000000)]"
        and ?wN1.0 = "((world0 100 [hn_item ''101'' 900000000] (\<lambda>k. Some BlueskyError))
            \<lparr>clock := 1000006000, bluesky := (\<lambda>k. None), fetches := 2, logins := 3,
             events := [FetchCall,
               PostFailed (hn_story ''101'' 101 900000000) BlueskyError, Sleep 2000,
               PostFailed (hn_story ''101'' 101 900000000) BlueskyError, Sleep 4000,
               PostFailed (hn_story ''101'' 101 900000000) BlueskyError, FetchCall]\<rparr>)" and e = BlueskyError and ?w2.0 = "((world0 100 [hn_item ''101'' 900000000] (\<lambda>k. Some BlueskyError))
            \<lparr>clock := 1000006000, fetches := 1, logins := 3,
             events := [FetchCall,
               PostFailed (hn_story ''101'' 101 900000000) BlueskyError, Sleep 2000,
               PostFailed (hn_story ''101'' 101 900000000) BlueskyError, Sleep 4000,
               PostFailed (hn_story ''101'' 101 900000000) BlueskyError]\<rparr>)" and uN = "()"
        and ?wN2.0 = "((world0 100 [hn_item ''101'' 900000000] (\<lambda>k. Some BlueskyError))
            \<lparr>clock := 1000006000, bluesky := (\<lambda>k. None), fetches := 2, logins := 4,
             posted := [(hn_story ''101'' 101 900000000)],
             events := [FetchCall,
               PostFailed (hn_story ''101'' 101 900000000) BlueskyError, Sleep 2000,
               PostFailed (hn_story ''101'' 101 900000000) BlueskyError, Sleep 4000,
               PostFailed (hn_story ''101'' 101 900000000) BlueskyError, FetchCall,
               Posted (hn_story ''101'' 101 900000000)]\<rparr>)" and u = "()"]
      save_only_after_publish [where cfg = cfg0 and w = "(world0 100 [hn_item ''101'' 900000000] (\<lambda>k. None))" and stories = "[(hn_story ''101'' 101 900000000)]"
        and ?w1.0 = "((world0 100 [hn_item ''101'' 900000000] (\<lambda>k. None))\<lparr>fetches := 1, events := [FetchCall]\<rparr>)" and fresh = "[(hn_story ''101'' 101 900000000)]" and ?argv2.0 = None and cursor = 100
        and chosenN = "(hn_story ''101'' 101 900000000)" and cfgN = cfg0 and wN = "(((world0 100 [hn_item ''101'' 900000000] (\<lambda>k. Some BlueskyError))
            \<lparr>clock := 1000006000, fetches := 1, logins := 3,
             events := [FetchCall,
               PostFailed (hn_story ''101'' 101 900000000) BlueskyError, Sleep 2000,
               PostFailed (hn_story ''101'' 101 900000000) BlueskyError, Sleep 4000,
               PostFailed (hn_story ''101'' 101 900000000) BlueskyError]\<rparr>)\<lparr>bluesky := (\<lambda>k. None)\<rparr>)" and storiesN = "[(hn_story ''101'' 101 900000000)]"
        and ?wN1.0 = "((world0 100 [hn_item ''101'' 900000000] (\<lambda>k. Some BlueskyError))
            \<lparr>clock := 1000006000, bluesky := (\<lambda>k. None), fetches := 2, logins := 3,
             events := [FetchCall,
               PostFailed (hn_story ''101'' 101 900000000) BlueskyError, Sleep 2000,
               PostFailed (hn_story ''101'' 101 900000000) BlueskyError, Sleep 4000,
               PostFailed (hn_story ''101'' 101 900000000) BlueskyError, FetchCall]\<rparr>)" and e = BlueskyError and ?w2.0 = "((world0 100 [hn_item ''101'' 900000000] (\<lambda>k. None))
            \<lparr>fetches := 1, logins := 1, posted := [(hn_story ''101'' 101 900000000)],
             events := [FetchCall, Posted (hn_story ''101'' 101 900000000)]\<rparr>)" and uN = "()"
        and ?wN2.0 = "((world0 100 [hn_item ''101'' 900000000] (\<lambda>k. Some BlueskyError))
            \<lparr>clock := 1000006000, bluesky := (\<lambda>k. None), fetches := 2, logins := 4,
             posted := [(hn_story ''101'' 101 900000000)],
             events := [FetchCall,
               PostFailed (hn_story ''101'' 101 900000000) BlueskyError, Sleep 2000,
               PostFailed (hn_story ''101'' 101 900000000) BlueskyError, Sleep 4000,
               PostFailed (hn_story ''101'' 101 900000000) BlueskyError, FetchCall,
               Posted (hn_story ''101'' 101 900000000)]\<rparr>)" and u = "()"]
    by -
qed

text \<open>
  C5, as the claim states it, fails where it says that the story is the one selected
  by the next run. A story published exactly 48 hours before the run is fresh; posting
  fails three times, which takes six seconds; the run ends with exit code 1 and leaves
  the state file as it was. The next run, on the same feed and with Bluesky working,
  finds the story older than the limit: it posts nothing and advances the cursor to
  the id of the story, which is then never posted.
\<close>

theorem failed_post_loses_story:
  "selection cfg0 (loadState (files (world0 100 [hn_item ''101'' 827200000] (\<lambda>k. Some BlueskyError))) (stateFile None)) 1000000000 [(hn_story ''101'' 101 827200000)]
     = PostAndAdvance (hn_story ''101'' 101 827200000) 101 \<and>
   main cfg0 None (world0 100 [hn_item ''101'' 827200000] (\<lambda>k. Some BlueskyError)) = (1, ((world0 100 [hn_item ''101'' 827200000] (\<lambda>k. Some BlueskyError))
          \<lparr>clock := 1000006000, fetches := 1, logins := 3,
           events := [FetchCall,
             PostFailed (hn_story ''101'' 101 827200000) BlueskyError, Sleep 2000,
             PostFailed (hn_story ''101'' 101 827200000) BlueskyError, Sleep 4000,
             PostFailed (hn_story ''101'' 101 827200000) BlueskyError]\<rparr>)) \<and>
   files ((world0 100 [hn_item ''101'' 827200000] (\<lambda>k. Some BlueskyError))
          \<lparr>clock := 1000006000, fetches := 1, logins := 3,
           events := [FetchCall,
             PostFailed (hn_story ''101'' 101 827200000) BlueskyError, Sleep 2000,
             PostFailed (hn_story ''101'' 101 827200000) BlueskyError, Sleep 4000,
             PostFailed (hn_story ''101'' 101 827200000) BlueskyError]\<rparr>) = files (world0 100 [hn_item ''101'' 827200000] (\<lambda>k. Some BlueskyError)) \<and>
   selection cfg0 (loadState (files (((world0 100 [hn_item ''101'' 827200000] (\<lambda>k. Some BlueskyError))
          \<lparr>clock := 1000006000, fetches := 1, logins := 3,
           events := [FetchCall,
             PostFailed (hn_story ''101'' 101 827200000) BlueskyError, Sleep 2000,
             PostFailed (hn_story ''101'' 101 827200000) BlueskyError, Sleep 4000,
             PostFailed (hn_story ''101'' 101 827200000) BlueskyError]\<rparr>)\<lparr>bluesky := (\<lambda>k. None)\<rparr>)) (stateFile None)) 1000006000 [(hn_story ''101'' 101 827200000)]
     = AdvanceOnly 101 \<and>
   fst (main cfg0 None (((world0 100 [hn_item ''101'' 827200000] (\<lambda>k. Some BlueskyError))
          \<lparr>clock := 1000006000, fetches := 1, logins := 3,
           events := [FetchCall,
             PostFailed (hn_story ''101'' 101 827200000) BlueskyError, Sleep 2000,
             PostFailed (hn_story ''101'' 101 827200000) BlueskyError, Sleep 4000,
             PostFailed (hn_story ''101'' 101 827200000) BlueskyError]\<rparr>)\<lparr>bluesky := (\<lambda>k. None)\<rparr>)) = 0 \<and>
   posted (snd (main cfg0 None (((world0 100 [hn_item ''101'' 827200000] (\<lambda>k. Some BlueskyError))
          \<lparr>clock := 1000006000, fetches := 1, logins := 3,
           events := [FetchCall,
             PostFailed (hn_story ''101'' 101 827200000) BlueskyError, Sleep 2000,
             PostFailed (hn_story ''101'' 101 827200000) BlueskyError, Sleep 4000,
             PostFailed (hn_story ''101'' 101 827200000) BlueskyError]\<rparr>)\<lparr>bluesky := (\<lambda>k. None)\<rparr>))) = [] \<and>
   loadState (files (snd (main cfg0 None (((world0 100 [hn_item ''101'' 827200000] (\<lambda>k. Some BlueskyError))
          \<lparr>clock := 1000006000, fetches := 1, logins := 3,
           events := [FetchCall,
             PostFailed (hn_story ''101'' 101 827200000) BlueskyError, Sleep 2000,
             PostFailed (hn_story ''101'' 101 827200000) BlueskyError, Sleep 4000,
             PostFailed (hn_story ''101'' 101 827200000) BlueskyError]\<rparr>)\<lparr>bluesky := (\<lambda>k. None)\<rparr>)))) (stateFile None) = \<lparr>lastStoryId = 101\<rparr>"
  by (simp add: world_defs run_defs)

section \<open>The cursor over runs\<close>

lemma saved_effect:
  assumes "main cfg argv2 w = (c, saveState (stateFile argv2) st w')"
    and "files w' = files w" and "writes (events w') = writes (events w)"
    and "lastStoryId (loadState (files w) (stateFile argv2)) < lastStoryId st"
  shows "\<exists>st. lastStoryId (loadState (files w) (stateFile argv2)) < lastStoryId st \<and>
      files (snd (main cfg argv2 w)) = (files w)(stateFile argv2 \<mapsto> StateJson st) \<and>
      writes (events (snd (main cfg argv2 w))) =
        writes (events w) @ [(stateFile argv2, StateJson st)]"
  using assms by (intro exI [of _ st]) (simp add: saveState_effect writes_append)

text \<open>What a run does to the state file: nothing, or one write of a greater id.\<close>

lemma main_effect:
  "(files (snd (main cfg argv2 w)) = files w \<and>
    writes (events (snd (main cfg argv2 w))) = writes (events w)) \<or>
   (\<exists>st. lastStoryId (loadState (files w) (stateFile argv2)) < lastStoryId st \<and>
      files (snd (main cfg argv2 w)) = (files w)(stateFile argv2 \<mapsto> StateJson st) \<and>
      writes (events (snd (main cfg argv2 w))) =
        writes (events w) @ [(stateFile argv2, StateJson st)])"
proof (cases "retryWithBackoff (fetchRSSFeed cfg) 3 1000 w")
  case (Pair r w1)
  have q1: "quiet w w1" using fetch_retry [OF Pair] by simp
  show ?thesis
  proof (cases r)
    case (Inl e)
    then show ?thesis
      using main_fetch_failed [of cfg w e w1 argv2] Pair q1 by (simp add: quiet_def)
  next
    case (Inr stories)
    note f = Pair [unfolded Inr]
    let ?state = "loadState (files w) (stateFile argv2)"
    let ?new = "newStories ?state stories"
    let ?fresh = "freshStories cfg (clock w1) ?new"
    show ?thesis
    proof (cases "?new = []")
      case True
      then have "main cfg argv2 w = (0, w1)"
        by (simp add: main_selection [OF f] selection_def)
      then show ?thesis using q1 by (simp add: quiet_def)
    next
      case new: False
      show ?thesis
      proof (cases "?fresh = []")
        case True
        have "main cfg argv2 w =
            (0, saveState (stateFile argv2) \<lparr>lastStoryId = Max (set (map story_id ?new))\<rparr> w1)"
          using main_advance [OF f new True] .
        moreover have "lastStoryId ?state < Max (set (map story_id ?new))"
          using Max_novel [OF new] .
        ultimately show ?thesis
          using q1 saved_effect [of cfg argv2 w 0 _ w1] by (simp add: quiet_def)
      next
        case fresh: False
        show ?thesis
        proof (cases "dryRun cfg")
          case True
          then have "main cfg argv2 w = (0, w1)"
            using fresh by (simp add: main_selection [OF f] selection_post)
          then show ?thesis using q1 by (simp add: quiet_def)
        next
          case dry: False
          obtain r2 w2 where p: "retryWithBackoff (postToBluesky cfg (?fresh ! 0)) 3 2000 w1 = (r2, w2)"
            by (cases "retryWithBackoff (postToBluesky cfg (?fresh ! 0)) 3 2000 w1")
          show ?thesis
          proof (cases r2)
            case (Inl e)
            then show ?thesis
              using main_post_failed [OF f refl fresh dry p [unfolded Inl]]
              by (simp add: quiet_def)
          next
            case (Inr u)
            note ok = main_posted [OF f refl fresh dry p [unfolded Inr]]
            have "?fresh ! 0 \<in> set ?fresh" using fresh by simp
            then have "lastStoryId ?state < story_id (?fresh ! 0)"
              by (simp add: freshStories_def newStories_def)
            moreover obtain w0 where "quiet w w0"
              "w2 = w0\<lparr>logins := logins w0 + 1, posted := posted w0 @ [?fresh ! 0],
                       events := events w0 @ [Posted (?fresh ! 0)]\<rparr>"
              using ok(2) by blast
            ultimately show ?thesis
              using saved_effect [of cfg argv2 w 0 _ w2] ok(1)
              by (simp add: quiet_def writes_append)
          qed
        qed
      qed
    qed
  qed
qed

lemma loadState_update:
  "loadState (fs(p \<mapsto> StateJson st)) p = st"
  by (simp add: loadState_def readFileSync_def JSON_parse_def)

lemma main_cursor_mono:
  "lastStoryId (loadState (files w) (stateFile argv2))
     \<le> lastStoryId (loadState (files (snd (main cfg argv2 w))) (stateFile argv2))"
  using main_effect [of cfg argv2 w] by (auto simp add: loadState_update)

lemma run_all_Cons: "\<exists>rest. run_all argv2 runs fs = fs # rest"
  by (cases runs) auto

text \<open>
  C4. In every sequence of runs on one state file, from any file system and with any
  configuration, clock and network in each run, the cursor that the state file holds
  (as \<open>loadState\<close> reads it) never decreases from one run to the next; within a
  run the cursor read back at the end is at least the one loaded at the start, and
  every write of the run goes to the state file and stores an id that is at least the
  one loaded.
\<close>

theorem cursor_monotone:
  "sorted (map (\<lambda>fs. lastStoryId (loadState fs (stateFile argv2))) (run_all argv2 runs fs)) \<and>
   lastStoryId (loadState (files w) (stateFile argv2))
     \<le> lastStoryId (loadState (files (snd (main cfg argv2 w))) (stateFile argv2)) \<and>
   (\<exists>ws. writes (events (snd (main cfg argv2 w))) = writes (events w) @ ws \<and>
      (\<forall>(p, c) \<in> set ws. p = stateFile argv2 \<and>
         (\<exists>st. c = StateJson st \<and>
            lastStoryId (loadState (files w) (stateFile argv2)) \<le> lastStoryId st)))"
proof -
  have wr: "\<exists>ws. writes (events (snd (main cfg argv2 w))) = writes (events w) @ ws \<and>
      (\<forall>(p, c) \<in> set ws. p = stateFile argv2 \<and>
         (\<exists>st. c = StateJson st \<and>
            lastStoryId (loadState (files w) (stateFile argv2)) \<le> lastStoryId st))"
    using main_effect [of cfg argv2 w]
  proof
    assume "files (snd (main cfg argv2 w)) = files w \<and>
      writes (events (snd (main cfg argv2 w))) = writes (events w)"
    then show ?thesis by (intro exI [of _ "[]"]) simp
  next
    assume "\<exists>st. lastStoryId (loadState (files w) (stateFile argv2)) < lastStoryId st \<and>
      files (snd (main cfg argv2 w)) = (files w)(stateFile argv2 \<mapsto> StateJson st) \<and>
      writes (events (snd (main cfg argv2 w))) =
        writes (events w) @ [(stateFile argv2, StateJson st)]"
    then obtain st where st: "lastStoryId (loadState (files w) (stateFile argv2)) < lastStoryId st"
      "writes (events (snd (main cfg argv2 w))) =
        writes (events w) @ [(stateFile argv2, StateJson st)]"
      by blast
    show ?thesis
      using st(1) by (intro exI [of _ "[(stateFile argv2, StateJson st)]"]) (simp add: st(2))
  qed
  have "sorted (map (\<lambda>fs. lastStoryId (loadState fs (stateFile argv2))) (run_all argv2 runs fs))"
  proof (induction runs arbitrary: fs)
    case Nil
    show ?case by simp
  next
    case (Cons r runs)
    obtain c env where r: "r = (c, env)" by (cases r)
    let ?fs' = "files (snd (main c argv2 (env\<lparr>files := fs\<rparr>)))"
    obtain rest where rest: "run_all argv2 runs ?fs' = ?fs' # rest"
      using run_all_Cons by blast
    have le: "lastStoryId (loadState fs (stateFile argv2))
                \<le> lastStoryId (loadState ?fs' (stateFile argv2))"
      using main_cursor_mono [of "env\<lparr>files := fs\<rparr>" argv2 c] by simp
    have "sorted (map (\<lambda>fs. lastStoryId (loadState fs (stateFile argv2))) (?fs' # rest))"
      using Cons.IH [of ?fs'] rest by simp
    then show ?case using le r rest by auto
  qed
  then show ?thesis using main_cursor_mono wr by blast
qed

theorem cursor_monotone_witness:
  "map (\<lambda>fs. lastStoryId (loadState fs (stateFile None)))
     (run_all None
        [(cfg0, world0 0 [hn_item ''101'' 0, hn_item ''102'' 0] (\<lambda>k. None)),
         (cfg0, world0 0 [hn_item ''102'' 900000000, hn_item ''103'' 900000000] (\<lambda>k. None)),
         (cfg0, world0 0 [hn_item ''103'' 900000000] (\<lambda>k. None))]
        [''last-processed.json'' \<mapsto> StateJson \<lparr>lastStoryId = 100\<rparr>])
     = [100, 102, 103, 103] \<and>
   sorted (map (\<lambda>fs. lastStoryId (loadState fs (stateFile None)))
     (run_all None
        [(cfg0, world0 0 [hn_item ''101'' 0, hn_item ''102'' 0] (\<lambda>k. None)),
         (cfg0, world0 0 [hn_item ''102'' 900000000, hn_item ''103'' 900000000] (\<lambda>k. None)),
         (cfg0, world0 0 [hn_item ''103'' 900000000] (\<lambda>k. None))]
        [''last-processed.json'' \<mapsto> StateJson \<lparr>lastStoryId = 100\<rparr>])) \<and>
   writes (events (snd (main cfg0 None
       (world0 100 [hn_item ''101'' 0, hn_item ''102'' 0] (\<lambda>k. None)))))
     = writes (events (world0 100 [hn_item ''101'' 0, hn_item ''102'' 0] (\<lambda>k. None)))
         @ [(stateFile None, StateJson \<lparr>lastStoryId = 102\<rparr>)] \<and>
   lastStoryId (loadState
        (files (world0 100 [hn_item ''101'' 0, hn_item ''102'' 0] (\<lambda>k. None)))
        (stateFile None)) \<le> lastStoryId \<lparr>lastStoryId = 102\<rparr>"
  using cursor_monotone [of None
        "[(cfg0, world0 0 [hn_item ''101'' 0, hn_item ''102'' 0] (\<lambda>k. None)),
         (cfg0, world0 0 [hn_item ''102'' 900000000, hn_item ''103'' 900000000] (\<lambda>k. None)),
         (cfg0, world0 0 [hn_item ''103'' 900000000] (\<lambda>k. None))]"
        "[''last-processed.json'' \<mapsto> StateJson \<lparr>lastStoryId = 100\<rparr>]"
        "world0 100 [hn_item ''101'' 0, hn_item ''102'' 0] (\<lambda>k. None)" cfg0]
  by (simp add: world_defs run_defs)

text \<open>
  C10. Every write of a run goes to the state file and stores an id strictly greater
  than the one loaded at the start of the run; there is at most one such write; and a
  run whose fetched list has no novel story writes nothing.
\<close>

theorem writes_strictly_increase:
  "(\<exists>ws. writes (events (snd (main cfg argv2 w))) = writes (events w) @ ws \<and>
      length ws \<le> 1 \<and>
      (\<forall>(p, c) \<in> set ws. p = stateFile argv2 \<and>
         (\<exists>st. c = StateJson st \<and>
            lastStoryId (loadState (files w) (stateFile argv2)) < lastStoryId st \<and>
            loadState (files (snd (main cfg argv2 w))) (stateFile argv2) = st))) \<and>
   (retryWithBackoff (fetchRSSFeed cfg) 3 1000 w = (Inr stories, w1) \<and>
    newStories (loadState (files w) (stateFile argv2)) stories = [] \<longrightarrow>
      writes (events (snd (main cfg argv2 w))) = writes (events w) \<and>
      files (snd (main cfg argv2 w)) = files w)"
proof -
  have a: "\<exists>ws. writes (events (snd (main cfg argv2 w))) = writes (events w) @ ws \<and>
      length ws \<le> 1 \<and>
      (\<forall>(p, c) \<in> set ws. p = stateFile argv2 \<and>
         (\<exists>st. c = StateJson st \<and>
            lastStoryId (loadState (files w) (stateFile argv2)) < lastStoryId st \<and>
            loadState (files (snd (main cfg argv2 w))) (stateFile argv2) = st))"
    using main_effect [of cfg argv2 w]
  proof
    assume "files (snd (main cfg argv2 w)) = files w \<and>
      writes (events (snd (main cfg argv2 w))) = writes (events w)"
    then show ?thesis by (intro exI [of _ "[]"]) simp
  next
    assume "\<exists>st. lastStoryId (loadState (files w) (stateFile argv2)) < lastStoryId st \<and>
      files (snd (main cfg argv2 w)) = (files w)(stateFile argv2 \<mapsto> StateJson st) \<and>
      writes (events (snd (main cfg argv2 w))) =
        writes (events w) @ [(stateFile argv2, StateJson st)]"
    then obtain st where st: "lastStoryId (loadState (files w) (stateFile argv2)) < lastStoryId st"
      "files (snd (main cfg argv2 w)) = (files w)(stateFile argv2 \<mapsto> StateJson st)"
      "writes (events (snd (main cfg argv2 w))) =
        writes (events w) @ [(stateFile argv2, StateJson st)]"
      by blast
    show ?thesis
      by (intro exI [of _ "[(stateFile argv2, StateJson st)]"]) (simp add: st loadState_update)
  qed
  have b: "writes (events (snd (main cfg argv2 w))) = writes (events w) \<and>
      files (snd (main cfg argv2 w)) = files w"
    if f: "retryWithBackoff (fetchRSSFeed cfg) 3 1000 w = (Inr stories, w1)"
      and n: "newStories (loadState (files w) (stateFile argv2)) stories = []"
  proof -
    have "main cfg argv2 w = (0, w1)"
      using n by (simp add: main_selection [OF f] selection_def)
    then show ?thesis using fetch_retry [OF f] by (simp add: quiet_def)
  qed
  show ?thesis using a b by blast
qed


theorem writes_strictly_increase_witness:
  "writes (events (snd (main cfg0 None
       (world0 100 [hn_item ''101'' 0, hn_item ''102'' 0] (\<lambda>k. None)))))
     = writes (events (world0 100 [hn_item ''101'' 0, hn_item ''102'' 0] (\<lambda>k. None)))
         @ [(''last-processed.json'', StateJson \<lparr>lastStoryId = 102\<rparr>)] \<and>
   ''last-processed.json'' = stateFile None \<and>
   lastStoryId (loadState
        (files (world0 100 [hn_item ''101'' 0, hn_item ''102'' 0] (\<lambda>k. None)))
        (stateFile None)) < lastStoryId \<lparr>lastStoryId = 102\<rparr> \<and>
   retryWithBackoff (fetchRSSFeed cfg0) 3 1000
       (world0 100 [hn_item ''100'' 900000000] (\<lambda>k. None))
     = (Inr [hn_story ''100'' 100 900000000],
        (world0 100 [hn_item ''100'' 900000000] (\<lambda>k. None))
          \<lparr>fetches := 1, events := [FetchCall]\<rparr>) \<and>
   newStories
       (loadState (files (world0 100 [hn_item ''100'' 900000000] (\<lambda>k. None))) (stateFile None))
       [hn_story ''100'' 100 900000000] = [] \<and>
   writes (events (snd (main cfg0 None (world0 100 [hn_item ''100'' 900000000] (\<lambda>k. None)))))
     = []"
  using
    writes_strictly_increase [of cfg0 None
      "world0 100 [hn_item ''101'' 0, hn_item ''102'' 0] (\<lambda>k. None)"]
    writes_strictly_increase [of cfg0 None
      "world0 100 [hn_item ''100'' 900000000] (\<lambda>k. None)"
      "[hn_story ''100'' 100 900000000]"
      "(world0 100 [hn_item ''100'' 900000000] (\<lambda>k. None))
          \<lparr>fetches := 1, events := [FetchCall]\<rparr>"]
  by (simp add: world_defs run_defs)

section \<open>Duplicate ids\<close>

lemma filter_absorb:
  assumes "\<And>t. t \<in> set xs \<Longrightarrow> P t \<Longrightarrow> Q t"
  shows "filter P (filter Q xs) = filter P xs"
  using assms by (induction xs) auto

lemma dedupe_ids: "story_id ` set (dedupe cfg now xs) = story_id ` set xs"
proof (induction cfg now xs rule: dedupe.induct)
  case (1 cfg now)
  show ?case by simp
next
  case (2 cfg now s ss)
  let ?keep = "withinAge cfg now s \<or>
         filter (\<lambda>t. story_id t = story_id s \<and> withinAge cfg now t) ss = []"
  show ?case
  proof (cases ?keep)
    case True
    have "story_id ` set (dedupe cfg now (s # ss)) =
            insert (story_id s) (story_id ` set (filter (\<lambda>t. story_id t \<noteq> story_id s) ss))"
      using True "2.IH"(1) by simp
    also have "\<dots> = story_id ` set (s # ss)" by auto
    finally show ?thesis .
  next
    case False
    then obtain t where "t \<in> set ss" "story_id t = story_id s"
      by (auto simp add: filter_empty_conv)
    then have "story_id s \<in> story_id ` set ss" by (metis imageI)
    then show ?thesis using False "2.IH"(2) by auto
  qed
qed

lemma dedupe_subset: "set (dedupe cfg now xs) \<subseteq> set xs"
proof (induction cfg now xs rule: dedupe.induct)
  case (1 cfg now)
  show ?case by simp
next
  case (2 cfg now s ss)
  show ?case
  proof (cases "withinAge cfg now s \<or>
         filter (\<lambda>t. story_id t = story_id s \<and> withinAge cfg now t) ss = []")
    case True
    then show ?thesis using "2.IH"(1) by auto
  next
    case False
    then show ?thesis using "2.IH"(2) by auto
  qed
qed

lemma dedupe_distinct: "distinct (map story_id (dedupe cfg now xs))"
proof (induction cfg now xs rule: dedupe.induct)
  case (1 cfg now)
  show ?case by simp
next
  case (2 cfg now s ss)
  show ?case
  proof (cases "withinAge cfg now s \<or>
         filter (\<lambda>t. story_id t = story_id s \<and> withinAge cfg now t) ss = []")
    case True
    have "story_id s \<notin> story_id ` set (dedupe cfg now (filter (\<lambda>t. story_id t \<noteq> story_id s) ss))"
      unfolding dedupe_ids by auto
    then show ?thesis using True "2.IH"(1) by simp
  next
    case False
    then show ?thesis using "2.IH"(2) by simp
  qed
qed

lemma dedupe_unique:
  "distinct (map story_id xs) \<Longrightarrow> dedupe cfg now xs = xs"
proof (induction xs)
  case Nil
  show ?case by simp
next
  case (Cons s ss)
  have "story_id s \<notin> story_id ` set ss"
    using Cons.prems by simp
  then have no: "\<And>t. t \<in> set ss \<Longrightarrow> story_id t \<noteq> story_id s"
    by (metis imageI)
  have a: "filter (\<lambda>t. story_id t = story_id s \<and> withinAge cfg now t) ss = []"
    using no by (auto simp add: filter_empty_conv)
  have b: "filter (\<lambda>t. story_id t \<noteq> story_id s) ss = ss"
    using no by (simp add: filter_id_conv)
  show ?case using Cons a b by simp
qed

text \<open>A filter that asks for the age limit and otherwise looks at the id alone finds
  something in the list with one entry for each id exactly when it does in the list,
  and the same first entry.\<close>

lemma dedupe_filter:
  "(filter (\<lambda>s. withinAge cfg now s \<and> Q (story_id s)) (dedupe cfg now xs) = [] \<longleftrightarrow>
      filter (\<lambda>s. withinAge cfg now s \<and> Q (story_id s)) xs = []) \<and>
   hd (filter (\<lambda>s. withinAge cfg now s \<and> Q (story_id s)) (dedupe cfg now xs)) =
     hd (filter (\<lambda>s. withinAge cfg now s \<and> Q (story_id s)) xs)"
proof (induction cfg now xs rule: dedupe.induct)
  case (1 cfg now)
  show ?case by simp
next
  case (2 cfg now s ss)
  let ?G = "\<lambda>s. withinAge cfg now s \<and> Q (story_id s)"
  let ?ss' = "filter (\<lambda>t. story_id t \<noteq> story_id s) ss"
  show ?case
  proof (cases "withinAge cfg now s \<or>
         filter (\<lambda>t. story_id t = story_id s \<and> withinAge cfg now t) ss = []")
    case keep: True
    show ?thesis
    proof (cases "?G s")
      case True
      then show ?thesis using keep by simp
    next
      case False
      have "\<And>t. t \<in> set ss \<Longrightarrow> ?G t \<Longrightarrow> story_id t \<noteq> story_id s"
        using keep False by (auto simp add: filter_empty_conv)
      then have e1: "filter ?G ?ss' = filter ?G ss"
        by (intro filter_absorb) blast
      have e2: "filter ?G (s # ss) = filter ?G ss"
        using False by simp
      have "dedupe cfg now (s # ss) = s # dedupe cfg now ?ss'"
        using keep by simp
      then have e3: "filter ?G (dedupe cfg now (s # ss)) = filter ?G (dedupe cfg now ?ss')"
        using False by simp
      show ?thesis
        unfolding e2 e3 using "2.IH"(1) [OF keep] unfolding e1 .
    qed
  next
    case drop: False
    then have e2: "filter ?G (s # ss) = filter ?G ss"
      by simp
    have e3: "dedupe cfg now (s # ss) = dedupe cfg now ss"
      using drop by simp
    show ?thesis
      unfolding e2 e3 using "2.IH"(2) [OF drop] .
  qed
qed


text \<open>
  C8. For every fetched list, cursor, time and configuration, the decision of the run
  (return, advance to which id, post which story) is the same on the list and on the
  list with one entry left for each id: that list has no id twice, its entries are
  entries of the fetched list, and it has the same ids. A list without duplicate ids
  is left as it is.
\<close>

theorem dedupe_same_selection:
  "distinct (map story_id (dedupe cfg now stories)) \<and>
   set (dedupe cfg now stories) \<subseteq> set stories \<and>
   story_id ` set (dedupe cfg now stories) = story_id ` set stories \<and>
   selection cfg state now (dedupe cfg now stories) = selection cfg state now stories \<and>
   (distinct (map story_id stories) \<longrightarrow> dedupe cfg now stories = stories)"
proof -
  let ?d = "dedupe cfg now stories"
  let ?new = "newStories state stories" and ?new' = "newStories state ?d"
  let ?fresh = "freshStories cfg now ?new" and ?fresh' = "freshStories cfg now ?new'"
  have nid: "story_id ` set (newStories state ys) =
               {i \<in> story_id ` set ys. lastStoryId state < i}" for ys
    by (auto simp add: newStories_def)
  have ids: "story_id ` set ?new' = story_id ` set ?new"
    by (simp only: nid dedupe_ids)
  have e: "?new' = [] \<longleftrightarrow> ?new = []"
  proof -
    have "?new' = [] \<longleftrightarrow> story_id ` set ?new' = {}" by simp
    also have "\<dots> \<longleftrightarrow> story_id ` set ?new = {}" by (simp only: ids)
    also have "\<dots> \<longleftrightarrow> ?new = []" by simp
    finally show ?thesis .
  qed
  have mx: "Max (set (map story_id ?new')) = Max (set (map story_id ?new))"
    using ids by simp
  have ff: "freshStories cfg now (newStories state ys) =
              filter (\<lambda>s. withinAge cfg now s \<and> lastStoryId state < story_id s) ys" for ys
    unfolding freshStories_def newStories_def filter_filter
    by (rule filter_cong) (auto simp add: withinAge_def maxAgeMs_def)
  have f: "(?fresh' = [] \<longleftrightarrow> ?fresh = []) \<and> hd ?fresh' = hd ?fresh"
    unfolding ff by (rule dedupe_filter)
  have n0: "?fresh' ! 0 = ?fresh ! 0" if "?fresh \<noteq> []"
  proof -
    have ne': "?fresh' \<noteq> []" using f that by simp
    have "?fresh' ! 0 = hd ?fresh'" using ne' by (simp add: hd_conv_nth)
    also have "\<dots> = hd ?fresh" using f by simp
    also have "\<dots> = ?fresh ! 0" using that by (simp add: hd_conv_nth)
    finally show ?thesis .
  qed
  have sel: "selection cfg state now ?d = selection cfg state now stories"
  proof (cases "?new = []")
    case True
    then show ?thesis using e by (simp add: selection_def)
  next
    case new: False
    show ?thesis
    proof (cases "?fresh = []")
      case True
      then show ?thesis
        using new e f mx by (simp add: selection_def Let_def)
    next
      case False
      then show ?thesis
        using new e f n0 by (simp add: selection_def Let_def)
    qed
  qed
  show ?thesis
    using dedupe_distinct dedupe_subset dedupe_ids sel dedupe_unique by blast
qed

theorem dedupe_same_selection_witness:
  "dedupe cfg0 1000000000 [hn_story ''99'' 99 900000000, hn_story ''101'' 101 0, hn_story ''101'' 101 900000000,
      hn_story ''102'' 102 900000000, hn_story ''102'' 102 950000000]
     = [hn_story ''99'' 99 900000000, hn_story ''101'' 101 900000000, hn_story ''102'' 102 900000000] \<and>
   selection cfg0 \<lparr>lastStoryId = 100\<rparr> 1000000000 [hn_story ''99'' 99 900000000, hn_story ''101'' 101 900000000, hn_story ''102'' 102 900000000]
     = PostAndAdvance (hn_story ''101'' 101 900000000) 101 \<and>
   selection cfg0 \<lparr>lastStoryId = 100\<rparr> 1000000000 [hn_story ''99'' 99 900000000, hn_story ''101'' 101 0, hn_story ''101'' 101 900000000,
      hn_story ''102'' 102 900000000, hn_story ''102'' 102 950000000]
     = PostAndAdvance (hn_story ''101'' 101 900000000) 101 \<and>
   distinct (map story_id [hn_story ''99'' 99 900000000, hn_story ''101'' 101 900000000, hn_story ''102'' 102 900000000]) \<and>
   dedupe cfg0 1000000000 [hn_story ''99'' 99 900000000, hn_story ''101'' 101 900000000, hn_story ''102'' 102 900000000] = [hn_story ''99'' 99 900000000, hn_story ''101'' 101 900000000, hn_story ''102'' 102 900000000]"
proof -
  have sel: "selection cfg0 \<lparr>lastStoryId = 100\<rparr> 1000000000 [hn_story ''99'' 99 900000000, hn_story ''101'' 101 0, hn_story ''101'' 101 900000000,
      hn_story ''102'' 102 900000000, hn_story ''102'' 102 950000000]
     = PostAndAdvance (hn_story ''101'' 101 900000000) 101"
    by (simp add: world_defs run_defs)
  have ded: "dedupe cfg0 1000000000 [hn_story ''99'' 99 900000000, hn_story ''101'' 101 0, hn_story ''101'' 101 900000000,
      hn_story ''102'' 102 900000000, hn_story ''102'' 102 950000000]
     = [hn_story ''99'' 99 900000000, hn_story ''101'' 101 900000000, hn_story ''102'' 102 900000000]"
    by (simp add: world_defs withinAge_def)
  show ?thesis
    using sel ded
      dedupe_same_selection [of cfg0 1000000000 "[hn_story ''99'' 99 900000000, hn_story ''101'' 101 0, hn_story ''101'' 101 900000000,
      hn_story ''102'' 102 900000000, hn_story ''102'' 102 950000000]" "\<lparr>lastStoryId = 100\<rparr>"]
      dedupe_same_selection [of cfg0 1000000000 "[hn_story ''99'' 99 900000000, hn_story ''101'' 101 900000000, hn_story ''102'' 102 900000000]" "\<lparr>lastStoryId = 100\<rparr>"]
    by (simp add: world_defs)
qed

text \<open>Which copy stays matters when the copies of an id differ in age: with both
  entries of id 101 in the list the run posts the fresh one, in either order, while on
  the stale entry alone it only advances the cursor.\<close>

lemma stale_copy_alone:
  "selection cfg0 \<lparr>lastStoryId = 100\<rparr> 1000000000
       [hn_story ''101'' 101 0, hn_story ''101'' 101 900000000]
     = PostAndAdvance (hn_story ''101'' 101 900000000) 101 \<and>
   selection cfg0 \<lparr>lastStoryId = 100\<rparr> 1000000000
       [hn_story ''101'' 101 900000000, hn_story ''101'' 101 0]
     = PostAndAdvance (hn_story ''101'' 101 900000000) 101 \<and>
   selection cfg0 \<lparr>lastStoryId = 100\<rparr> 1000000000 [hn_story ''101'' 101 0]
     = AdvanceOnly 101"
  by (simp add: world_defs run_defs)

section \<open>Loading a state file of any shape\<close>

lemma loadState_js_typed:
  "disk p = map_option Typed (fs p) \<Longrightarrow> loadState_js disk p = JsState (loadState fs p)"
  by (cases "fs p")
     (auto simp add: loadState_js_def readFileSync_js_def JSON_parse_js_def loadState_def
        readFileSync_def JSON_parse_def split: content.splits)

lemma greater_js_filter:
  "filter (\<lambda>story. greater_js (story_id story) (Some (lastStoryId st))) stories =
     newStories st stories"
  by (simp add: greater_js_def newStories_def)

text \<open>On a state file that holds a state, no file or text that \<open>JSON.parse\<close> rejects,
  \<open>main_js\<close> does what \<open>main\<close> does.\<close>

lemma main_js_typed:
  assumes "disk (stateFile argv2) = map_option Typed (files w (stateFile argv2))"
  shows "fst (main_js cfg argv2 (disk, w)) = fst (main cfg argv2 w) \<and>
         posted (snd (snd (main_js cfg argv2 (disk, w)))) = posted (snd (main cfg argv2 w)) \<and>
         events (snd (snd (main_js cfg argv2 (disk, w)))) = events (snd (main cfg argv2 w)) \<and>
         fst (snd (main_js cfg argv2 (disk, w))) (stateFile argv2) =
           map_option Typed (files (snd (main cfg argv2 w)) (stateFile argv2))"
proof -
  have st: "loadState_js disk (stateFile argv2) =
              JsState (loadState (files w) (stateFile argv2))"
    using assms by (rule loadState_js_typed)
  obtain r w1 where f: "retryWithBackoff (fetchRSSFeed cfg) 3 1000 w = (r, w1)"
    by (cases "retryWithBackoff (fetchRSSFeed cfg) 3 1000 w")
  have fw: "files w1 = files w"
    using fetch_retry [OF f] by (simp add: quiet_def)
  have pw: "files w2 = files w1"
    if "retryWithBackoff (postToBluesky cfg s) 3 2000 w1 = (r2, w2)" for s r2 w2
    using post_retry [OF that] by (cases r2) (auto simp add: quiet_def)
  show ?thesis
  proof (cases r)
    case (Inl e)
    then show ?thesis
      using f fw assms by (simp add: main_js_def main_def st lastStoryId_js_def)
  next
    case (Inr stories)
    show ?thesis
      using f Inr fw assms pw
      by (auto simp add: main_js_def main_def st lastStoryId_js_def greater_js_filter Let_def
            saveState_js_def saveState_def writeFileSync_def BotState_update
          split: prod.splits sum.splits)
  qed
qed

text \<open>A run depends on the state file only through the value that \<open>loadState\<close> returns.\<close>

lemma main_js_disk:
  assumes "loadState_js d1 (stateFile argv2) = loadState_js d2 (stateFile argv2)"
  shows "fst (main_js cfg argv2 (d1, w)) = fst (main_js cfg argv2 (d2, w)) \<and>
         snd (snd (main_js cfg argv2 (d1, w))) = snd (snd (main_js cfg argv2 (d2, w)))"
  using assms
  by (simp add: main_js_def Let_def saveState_js_def split: prod.splits sum.splits)


text \<open>
  C9, as the code has it. \<open>loadState\<close> returns \<open>{ lastStoryId: 0 }\<close> exactly when reading
  the file fails (there is no readable file at the path), when \<open>JSON.parse\<close> rejects its
  text, or when the file holds that state; a state, \<open>null\<close> and any other JSON value in
  the file are returned as parsed. In the first two cases the run has the exit
  code and leaves the world (posts, effects, clock) of the run that finds
  \<open>{ lastStoryId: 0 }\<close> in the state file, and it ends with exit code 1 only if fetching
  the feed failed at every attempt, or posting the story it chose from cursor 0 did.
\<close>

theorem loadState_recovers:
  "(loadState_js disk filepath = JsState \<lparr>lastStoryId = 0\<rparr> \<longleftrightarrow>
      disk filepath = None \<or> (\<exists>t. disk filepath = Some (Typed (Garbage t))) \<or>
      disk filepath = Some (Typed (StateJson \<lparr>lastStoryId = 0\<rparr>))) \<and>
   (disk filepath = Some (Typed (StateJson st)) \<longrightarrow>
      loadState_js disk filepath = JsState st) \<and>
   (disk filepath = Some NullText \<longrightarrow> loadState_js disk filepath = JsNull) \<and>
   (disk filepath = Some OtherText \<longrightarrow> loadState_js disk filepath = JsOther) \<and>
   ((disk filepath = None \<or> (\<exists>t. disk filepath = Some (Typed (Garbage t)))) \<and>
    filepath = stateFile argv2 \<longrightarrow>
      fst (main_js cfg argv2 (disk, w)) =
        fst (main_js cfg argv2
               (disk(filepath \<mapsto> Typed (StateJson \<lparr>lastStoryId = 0\<rparr>)), w)) \<and>
      snd (snd (main_js cfg argv2 (disk, w))) =
        snd (snd (main_js cfg argv2
               (disk(filepath \<mapsto> Typed (StateJson \<lparr>lastStoryId = 0\<rparr>)), w))) \<and>
      (fst (main_js cfg argv2 (disk, w)) \<noteq> 0 \<longrightarrow>
         (\<exists>e w1. retryWithBackoff (fetchRSSFeed cfg) 3 1000 w = (Inl e, w1)) \<or>
         (\<exists>stories w1 e w2.
            retryWithBackoff (fetchRSSFeed cfg) 3 1000 w = (Inr stories, w1) \<and>
            retryWithBackoff
              (postToBluesky cfg
                 (freshStories cfg (clock w1) (newStories \<lparr>lastStoryId = 0\<rparr> stories) ! 0))
              3 2000 w1 = (Inl e, w2))))"
proof -
  have load: "loadState_js disk filepath = JsState \<lparr>lastStoryId = 0\<rparr> \<longleftrightarrow>
      disk filepath = None \<or> (\<exists>t. disk filepath = Some (Typed (Garbage t))) \<or>
      disk filepath = Some (Typed (StateJson \<lparr>lastStoryId = 0\<rparr>))"
    by (auto simp add: loadState_js_def readFileSync_js_def JSON_parse_js_def JSON_parse_def
          split: option.splits json_text.splits content.splits)
  have shape: "(disk filepath = Some (Typed (StateJson st)) \<longrightarrow>
      loadState_js disk filepath = JsState st) \<and>
   (disk filepath = Some NullText \<longrightarrow> loadState_js disk filepath = JsNull) \<and>
   (disk filepath = Some OtherText \<longrightarrow> loadState_js disk filepath = JsOther)"
    by (simp add: loadState_js_def readFileSync_js_def JSON_parse_js_def JSON_parse_def)
  have run: "fst (main_js cfg argv2 (disk, w)) =
        fst (main_js cfg argv2
               (disk(filepath \<mapsto> Typed (StateJson \<lparr>lastStoryId = 0\<rparr>)), w)) \<and>
      snd (snd (main_js cfg argv2 (disk, w))) =
        snd (snd (main_js cfg argv2
               (disk(filepath \<mapsto> Typed (StateJson \<lparr>lastStoryId = 0\<rparr>)), w))) \<and>
      (fst (main_js cfg argv2 (disk, w)) \<noteq> 0 \<longrightarrow>
         (\<exists>e w1. retryWithBackoff (fetchRSSFeed cfg) 3 1000 w = (Inl e, w1)) \<or>
         (\<exists>stories w1 e w2.
            retryWithBackoff (fetchRSSFeed cfg) 3 1000 w = (Inr stories, w1) \<and>
            retryWithBackoff
              (postToBluesky cfg
                 (freshStories cfg (clock w1) (newStories \<lparr>lastStoryId = 0\<rparr> stories) ! 0))
              3 2000 w1 = (Inl e, w2)))"
    if h: "disk filepath = None \<or> (\<exists>t. disk filepath = Some (Typed (Garbage t)))"
      and p: "filepath = stateFile argv2"
  proof -
    have st: "loadState_js disk (stateFile argv2) = JsState \<lparr>lastStoryId = 0\<rparr>"
      using load h p by blast
    have st0: "loadState_js (disk(filepath \<mapsto> Typed (StateJson \<lparr>lastStoryId = 0\<rparr>)))
                 (stateFile argv2) = JsState \<lparr>lastStoryId = 0\<rparr>"
      using p by (simp add: loadState_js_def readFileSync_js_def JSON_parse_js_def JSON_parse_def)
    have same: "fst (main_js cfg argv2 (disk, w)) =
        fst (main_js cfg argv2
               (disk(filepath \<mapsto> Typed (StateJson \<lparr>lastStoryId = 0\<rparr>)), w)) \<and>
      snd (snd (main_js cfg argv2 (disk, w))) =
        snd (snd (main_js cfg argv2
               (disk(filepath \<mapsto> Typed (StateJson \<lparr>lastStoryId = 0\<rparr>)), w)))"
      by (rule main_js_disk) (simp only: st st0)
    have exit: "fst (main_js cfg argv2 (disk, w)) \<noteq> 0 \<longrightarrow>
         (\<exists>e w1. retryWithBackoff (fetchRSSFeed cfg) 3 1000 w = (Inl e, w1)) \<or>
         (\<exists>stories w1 e w2.
            retryWithBackoff (fetchRSSFeed cfg) 3 1000 w = (Inr stories, w1) \<and>
            retryWithBackoff
              (postToBluesky cfg
                 (freshStories cfg (clock w1) (newStories \<lparr>lastStoryId = 0\<rparr> stories) ! 0))
              3 2000 w1 = (Inl e, w2))"
    proof (cases "retryWithBackoff (fetchRSSFeed cfg) 3 1000 w")
      case (Pair r w1)
      show ?thesis
      proof (cases r)
        case (Inl e)
        then show ?thesis using Pair by blast
      next
        case (Inr stories)
        show ?thesis
          using Pair Inr
          by (auto simp add: main_js_def st lastStoryId_js_def Let_def
                greater_js_filter [of "\<lparr>lastStoryId = 0\<rparr>", simplified]
                saveState_js_def split: prod.splits sum.splits if_splits)
      qed
    qed
    show ?thesis using same exit by blast
  qed
  show ?thesis using load shape run by blast
qed

theorem loadState_recovers_witness:
  "loadState_js Map.empty ''last-processed.json'' = JsState \<lparr>lastStoryId = 0\<rparr> \<and>
   loadState_js [''last-processed.json'' \<mapsto> Typed (Garbage ''{ lastStoryId'')]
     ''last-processed.json'' = JsState \<lparr>lastStoryId = 0\<rparr> \<and>
   loadState_js [''last-processed.json'' \<mapsto> NullText] ''last-processed.json''
     \<noteq> JsState \<lparr>lastStoryId = 0\<rparr> \<and>
   loadState_js [''last-processed.json'' \<mapsto> OtherText] ''last-processed.json''
     = JsOther \<and>
   loadState_js [''last-processed.json'' \<mapsto> Typed (StateJson \<lparr>lastStoryId = 0\<rparr>)]
     ''last-processed.json'' = JsState \<lparr>lastStoryId = 0\<rparr> \<and>
   ''last-processed.json'' = stateFile None \<and>
   main_js cfg0 None (Map.empty, (world0 0 [hn_item ''7'' 900000000] (\<lambda>k. None)))
     = (0, ([''last-processed.json'' \<mapsto> Typed (StateJson \<lparr>lastStoryId = 7\<rparr>)], ((world0 0 [hn_item ''7'' 900000000] (\<lambda>k. None))
          \<lparr>fetches := 1, logins := 1, posted := [hn_story ''7'' 7 900000000],
           events := [FetchCall, Posted (hn_story ''7'' 7 900000000),
                      Write ''last-processed.json'' (StateJson \<lparr>lastStoryId = 7\<rparr>)]\<rparr>))) \<and>
   main_js cfg0 None
       ([''last-processed.json'' \<mapsto> Typed (Garbage ''{ lastStoryId'')], (world0 0 [hn_item ''7'' 900000000] (\<lambda>k. None)))
     = (0, ([''last-processed.json'' \<mapsto> Typed (StateJson \<lparr>lastStoryId = 7\<rparr>)], ((world0 0 [hn_item ''7'' 900000000] (\<lambda>k. None))
          \<lparr>fetches := 1, logins := 1, posted := [hn_story ''7'' 7 900000000],
           events := [FetchCall, Posted (hn_story ''7'' 7 900000000),
                      Write ''last-processed.json'' (StateJson \<lparr>lastStoryId = 7\<rparr>)]\<rparr>))) \<and>
   main_js cfg0 None
       ([''last-processed.json'' \<mapsto> Typed (StateJson \<lparr>lastStoryId = 0\<rparr>)], (world0 0 [hn_item ''7'' 900000000] (\<lambda>k. None)))
     = (0, ([''last-processed.json'' \<mapsto> Typed (StateJson \<lparr>lastStoryId = 7\<rparr>)], ((world0 0 [hn_item ''7'' 900000000] (\<lambda>k. None))
          \<lparr>fetches := 1, logins := 1, posted := [hn_story ''7'' 7 900000000],
           events := [FetchCall, Posted (hn_story ''7'' 7 900000000),
                      Write ''last-processed.json'' (StateJson \<lparr>lastStoryId = 7\<rparr>)]\<rparr>))) \<and>
   fst (main_js cfg0 None (Map.empty, ((world0 0 [] (\<lambda>k. None))\<lparr>feed := (\<lambda>k p. Inl NetworkError)\<rparr>))) \<noteq> 0 \<and>
   retryWithBackoff (fetchRSSFeed cfg0) 3 1000 ((world0 0 [] (\<lambda>k. None))\<lparr>feed := (\<lambda>k p. Inl NetworkError)\<rparr>) = (Inl NetworkError, ((world0 0 [] (\<lambda>k. None))
          \<lparr>clock := 1000003000, feed := (\<lambda>k p. Inl NetworkError), fetches := 3,
           events := [FetchCall, Sleep 1000, FetchCall, Sleep 2000, FetchCall]\<rparr>))"
proof -
  have ev:
    "loadState_js Map.empty ''last-processed.json'' = JsState \<lparr>lastStoryId = 0\<rparr> \<and>
     loadState_js [''last-processed.json'' \<mapsto> Typed (Garbage ''{ lastStoryId'')]
       ''last-processed.json'' = JsState \<lparr>lastStoryId = 0\<rparr> \<and>
     loadState_js [''last-processed.json'' \<mapsto> NullText] ''last-processed.json''
       \<noteq> JsState \<lparr>lastStoryId = 0\<rparr> \<and>
     loadState_js [''last-processed.json'' \<mapsto> OtherText] ''last-processed.json''
       = JsOther \<and>
     loadState_js [''last-processed.json'' \<mapsto> Typed (StateJson \<lparr>lastStoryId = 0\<rparr>)]
       ''last-processed.json'' = JsState \<lparr>lastStoryId = 0\<rparr> \<and>
     ''last-processed.json'' = stateFile None \<and>
     main_js cfg0 None (Map.empty, (world0 0 [hn_item ''7'' 900000000] (\<lambda>k. None)))
       = (0, ([''last-processed.json'' \<mapsto> Typed (StateJson \<lparr>lastStoryId = 7\<rparr>)], ((world0 0 [hn_item ''7'' 900000000] (\<lambda>k. None))
            \<lparr>fetches := 1, logins := 1, posted := [hn_story ''7'' 7 900000000],
             events := [FetchCall, Posted (hn_story ''7'' 7 900000000),
                        Write ''last-processed.json'' (StateJson \<lparr>lastStoryId = 7\<rparr>)]\<rparr>))) \<and>
     main_js cfg0 None
         ([''last-processed.json'' \<mapsto> Typed (Garbage ''{ lastStoryId'')], (world0 0 [hn_item ''7'' 900000000] (\<lambda>k. None)))
       = (0, ([''last-processed.json'' \<mapsto> Typed (StateJson \<lparr>lastStoryId = 7\<rparr>)], ((world0 0 [hn_item ''7'' 900000000] (\<lambda>k. None))
            \<lparr>fetches := 1, logins := 1, posted := [hn_story ''7'' 7 900000000],
             events := [FetchCall, Posted (hn_story ''7'' 7 900000000),
                        Write ''last-processed.json'' (StateJson \<lparr>lastStoryId = 7\<rparr>)]\<rparr>))) \<and>
     main_js cfg0 None
         ([''last-processed.json'' \<mapsto> Typed (StateJson \<lparr>lastStoryId = 0\<rparr>)], (world0 0 [hn_item ''7'' 900000000] (\<lambda>k. None)))
       = (0, ([''last-processed.json'' \<mapsto> Typed (StateJson \<lparr>lastStoryId = 7\<rparr>)], ((world0 0 [hn_item ''7'' 900000000] (\<lambda>k. None))
            \<lparr>fetches := 1, logins := 1, posted := [hn_story ''7'' 7 900000000],
             events := [FetchCall, Posted (hn_story ''7'' 7 900000000),
                        Write ''last-processed.json'' (StateJson \<lparr>lastStoryId = 7\<rparr>)]\<rparr>))) \<and>
     fst (main_js cfg0 None (Map.empty, ((world0 0 [] (\<lambda>k. None))\<lparr>feed := (\<lambda>k p. Inl NetworkError)\<rparr>))) \<noteq> 0 \<and>
     retryWithBackoff (fetchRSSFeed cfg0) 3 1000 ((world0 0 [] (\<lambda>k. None))\<lparr>feed := (\<lambda>k p. Inl NetworkError)\<rparr>) = (Inl NetworkError, ((world0 0 [] (\<lambda>k. None))
            \<lparr>clock := 1000003000, feed := (\<lambda>k p. Inl NetworkError), fetches := 3,
             events := [FetchCall, Sleep 1000, FetchCall, Sleep 2000, FetchCall]\<rparr>))"
    by (simp add: world_defs run_defs main_js_def loadState_js_def readFileSync_js_def
          JSON_parse_js_def lastStoryId_js_def greater_js_def saveState_js_def)
  show ?thesis
    using ev
      loadState_recovers [of Map.empty "''last-processed.json''" "\<lparr>lastStoryId = 0\<rparr>" None cfg0 "(world0 0 [hn_item ''7'' 900000000] (\<lambda>k. None))"]
      loadState_recovers [of "[''last-processed.json'' \<mapsto> Typed (Garbage ''{ lastStoryId'')]"
        "''last-processed.json''" "\<lparr>lastStoryId = 0\<rparr>" None cfg0 "(world0 0 [hn_item ''7'' 900000000] (\<lambda>k. None))"]
      loadState_recovers [of "[''last-processed.json'' \<mapsto> OtherText]"
        "''last-processed.json''" "\<lparr>lastStoryId = 0\<rparr>" None cfg0 "(world0 0 [hn_item ''7'' 900000000] (\<lambda>k. None))"]
      loadState_recovers [of "[''last-processed.json'' \<mapsto> Typed (StateJson \<lparr>lastStoryId = 0\<rparr>)]"
        "''last-processed.json''" "\<lparr>lastStoryId = 0\<rparr>" None cfg0 "(world0 0 [hn_item ''7'' 900000000] (\<lambda>k. None))"]
      loadState_recovers [of "[''last-processed.json'' \<mapsto> NullText]"
        "''last-processed.json''" "\<lparr>lastStoryId = 0\<rparr>" None cfg0 "(world0 0 [hn_item ''7'' 900000000] (\<lambda>k. None))"]
      loadState_recovers [of Map.empty "''last-processed.json''" "\<lparr>lastStoryId = 0\<rparr>" None cfg0 "((world0 0 [] (\<lambda>k. None))\<lparr>feed := (\<lambda>k p. Inl NetworkError)\<rparr>)"]
    by -
qed

text \<open>
  C9, as the claim states it, fails on a state file whose text is valid JSON of another
  shape. On the text \<open>null\<close>, \<open>loadState\<close> returns \<open>null\<close> and the run ends with exit code
  1 before it fetches the feed, with the feed and Bluesky both working. On a text such
  as \<open>{}\<close>, \<open>loadState\<close> returns a value without a cursor, no story is novel, and the
  run returns without posting the fresh story 7 that the run from
  \<open>{ lastStoryId: 0 }\<close> posts.
\<close>

theorem other_json_not_recovered:
  "loadState_js [''last-processed.json'' \<mapsto> NullText] ''last-processed.json'' = JsNull \<and>
   main_js cfg0 None ([''last-processed.json'' \<mapsto> NullText], (world0 0 [hn_item ''7'' 900000000] (\<lambda>k. None)))
     = (1, ([''last-processed.json'' \<mapsto> NullText], (world0 0 [hn_item ''7'' 900000000] (\<lambda>k. None)))) \<and>
   loadState_js [''last-processed.json'' \<mapsto> OtherText] ''last-processed.json'' = JsOther \<and>
   main_js cfg0 None ([''last-processed.json'' \<mapsto> OtherText], (world0 0 [hn_item ''7'' 900000000] (\<lambda>k. None)))
     = (0, ([''last-processed.json'' \<mapsto> OtherText], ((world0 0 [hn_item ''7'' 900000000] (\<lambda>k. None))\<lparr>fetches := 1, events := [FetchCall]\<rparr>))) \<and>
   posted ((world0 0 [hn_item ''7'' 900000000] (\<lambda>k. None))\<lparr>fetches := 1, events := [FetchCall]\<rparr>) = [] \<and>
   main_js cfg0 None
       ([''last-processed.json'' \<mapsto> Typed (StateJson \<lparr>lastStoryId = 0\<rparr>)], (world0 0 [hn_item ''7'' 900000000] (\<lambda>k. None)))
     = (0, ([''last-processed.json'' \<mapsto> Typed (StateJson \<lparr>lastStoryId = 7\<rparr>)], ((world0 0 [hn_item ''7'' 900000000] (\<lambda>k. None))
          \<lparr>fetches := 1, logins := 1, posted := [hn_story ''7'' 7 900000000],
           events := [FetchCall, Posted (hn_story ''7'' 7 900000000),
                      Write ''last-processed.json'' (StateJson \<lparr>lastStoryId = 7\<rparr>)]\<rparr>))) \<and>
   posted ((world0 0 [hn_item ''7'' 900000000] (\<lambda>k. None))
          \<lparr>fetches := 1, logins := 1, posted := [hn_story ''7'' 7 900000000],
           events := [FetchCall, Posted (hn_story ''7'' 7 900000000),
                      Write ''last-processed.json'' (StateJson \<lparr>lastStoryId = 7\<rparr>)]\<rparr>) = [hn_story ''7'' 7 900000000]"
  by (simp add: world_defs run_defs main_js_def loadState_js_def readFileSync_js_def
        JSON_parse_js_def lastStoryId_js_def greater_js_def saveState_js_def)

end
